theory Spec2Isabelle
  imports Complex_Main "HOL-Library.Multiset"
begin

section \<open>Python numbers and errors\<close>

text \<open>
  The module under verification is \<^verbatim>\<open>asreview/balance_strategies/triple_balance.py\<close>.
  Python's \<^verbatim>\<open>int\<close> is modelled by \<^typ>\<open>int\<close>. Python's \<^verbatim>\<open>float\<close> is modelled by
  \<^typ>\<open>real\<close>: the arithmetic is exact, so rounding, overflow and \<^verbatim>\<open>nan\<close> of IEEE doubles
  are outside this development. Every exception the code can raise is a value of
  \<open>py_error\<close>, and a computation that may raise returns \<open>py_error + 'a\<close>.
\<close>

datatype py_error = ZeroDivisionError | ValueError | TypeError | IndexError | KeyError

text \<open>
  The operator \<^verbatim>\<open>**\<close> on floats may return a complex number (negative base, fractional
  exponent), so its result is a float or a complex.
\<close>

datatype pynum = PyFloat real | PyComplex complex

text \<open>True division \<^verbatim>\<open>a / b\<close>: raises on a zero divisor.\<close>

definition py_div :: "real \<Rightarrow> real \<Rightarrow> py_error + real" where
  "py_div a b = (if b = 0 then Inl ZeroDivisionError else Inr (a / b))"

text \<open>\<^verbatim>\<open>math.log(b)\<close>: a domain error unless \<open>b\<close> is positive.\<close>

definition py_log :: "real \<Rightarrow> py_error + real" where
  "py_log b = (if b \<le> 0 then Inl ValueError else Inr (ln b))"

text \<open>
  \<^verbatim>\<open>x ** y\<close> on floats: anything to the power 0 is 1 (also \<^verbatim>\<open>0.0 ** 0.0\<close>); zero to a
  negative power raises; a negative base with a fractional exponent gives the principal
  complex power; a negative base with an integral exponent gives the real power.
\<close>

definition py_pow :: "real \<Rightarrow> real \<Rightarrow> py_error + pynum" where
  "py_pow x y =
     (if y = 0 then Inr (PyFloat 1)
      else if x = 0 then (if y < 0 then Inl ZeroDivisionError else Inr (PyFloat 0))
      else if x < 0 then
        (if y = of_int \<lfloor>y\<rfloor> then Inr (PyFloat (x powi \<lfloor>y\<rfloor>))
         else Inr (PyComplex (of_real ((- x) powr y) * cis (pi * y))))
      else Inr (PyFloat (x powr y)))"

section \<open>The two decay functions\<close>

text \<open>
  \<^verbatim>\<open>
  def _rand_max_weight(n_one, n_zero_rand, n_zero_max, n_samples, b, alpha):
      frac = (n_one+n_zero_max)/(n_samples-n_zero_rand)
      ratio = b * exp(-log(b) * frac**alpha)
      return ratio
  \<close>
  A complex power makes \<^verbatim>\<open>exp\<close> raise \<^verbatim>\<open>TypeError\<close>. (Isabelle names cannot start with
  an underscore, so the leading underscore of the private functions is dropped; \<open>frac\<close> is
  a library constant, so the local of that name is \<open>fraction\<close>.)
\<close>

definition rand_max_weight :: "int \<Rightarrow> int \<Rightarrow> int \<Rightarrow> int \<Rightarrow> real \<Rightarrow> real \<Rightarrow> py_error + real" where
  "rand_max_weight n_one n_zero_rand n_zero_max n_samples b alpha =
     (case py_div (of_int (n_one + n_zero_max)) (of_int (n_samples - n_zero_rand)) of
        Inl e \<Rightarrow> Inl e
      | Inr fraction \<Rightarrow>
          (case py_log b of
             Inl e \<Rightarrow> Inl e
           | Inr lb \<Rightarrow>
               (case py_pow fraction alpha of
                  Inl e \<Rightarrow> Inl e
                | Inr (PyComplex c) \<Rightarrow> Inl TypeError
                | Inr (PyFloat p) \<Rightarrow> Inr (b * exp (- lb * p)))))"

text \<open>
  \<^verbatim>\<open>
  def _one_zero_ratio(n_one, n_zero, beta, delta):
      ratio = (1-delta)*(n_one/n_zero)**beta + delta
      return ratio
  \<close>
\<close>

definition one_zero_ratio :: "int \<Rightarrow> int \<Rightarrow> real \<Rightarrow> real \<Rightarrow> py_error + pynum" where
  "one_zero_ratio n_one n_zero beta delta =
     (case py_div (of_int n_one) (of_int n_zero) of
        Inl e \<Rightarrow> Inl e
      | Inr q \<Rightarrow>
          (case py_pow q beta of
             Inl e \<Rightarrow> Inl e
           | Inr (PyFloat p) \<Rightarrow> Inr (PyFloat ((1 - delta) * p + delta))
           | Inr (PyComplex c) \<Rightarrow> Inr (PyComplex (of_real (1 - delta) * c + of_real delta))))"

section \<open>Sizing of a mini epoch\<close>

text \<open>
  \<^verbatim>\<open>ceil(n_one/oz_ratio)\<close>: the division raises on zero, and \<^verbatim>\<open>ceil\<close> raises
  \<^verbatim>\<open>TypeError\<close> on a complex quotient.
\<close>

definition ceil_div :: "int \<Rightarrow> pynum \<Rightarrow> py_error + int" where
  "ceil_div n r =
     (case r of
        PyFloat x \<Rightarrow> (case py_div (of_int n) x of Inl e \<Rightarrow> Inl e | Inr q \<Rightarrow> Inr \<lceil>q\<rceil>)
      | PyComplex c \<Rightarrow> (if c = 0 then Inl ZeroDivisionError else Inl TypeError))"

text \<open>
  \<^verbatim>\<open>
  def _get_triple_dist(n_one, n_zero_rand, n_zero_max, n_samples, rand_max_b=10,
                       rand_max_alpha=1.0, one_zero_beta=0.6, one_zero_delta=0.15):
      n_zero = n_zero_rand+n_zero_max
      oz_ratio = _one_zero_ratio(n_one, n_zero, one_zero_beta, one_zero_delta)
      n_zero_epoch = ceil(n_one/oz_ratio)
      rand_max_wr = _rand_max_weight(n_one, n_zero_rand, n_zero_max, n_samples,
                                     rand_max_b, rand_max_alpha)
      if n_zero_max:
          n_zero_rand_epoch = n_zero_epoch/(rand_max_wr+n_zero_max/n_zero_rand)
          n_zero_rand_epoch = ceil(rand_max_wr*n_zero_rand_epoch)
      else:
          n_zero_rand_epoch = n_zero_epoch
      n_zero_max_epoch = n_zero_epoch-n_zero_rand_epoch
      return n_one, n_zero_rand_epoch, n_zero_max_epoch
  \<close>
  The four keyword parameters are collected in a record.
\<close>

record dist_kwargs =
  rand_max_b :: real
  rand_max_alpha :: real
  one_zero_beta :: real
  one_zero_delta :: real

text \<open>The branch on \<^verbatim>\<open>n_zero_max\<close>, which gives \<^verbatim>\<open>n_zero_rand_epoch\<close>.\<close>

definition n_zero_rand_epoch_of :: "int \<Rightarrow> int \<Rightarrow> int \<Rightarrow> real \<Rightarrow> py_error + int" where
  "n_zero_rand_epoch_of n_zero_epoch n_zero_rand n_zero_max rand_max_wr =
     (if n_zero_max \<noteq> 0 then
        (case py_div (of_int n_zero_max) (of_int n_zero_rand) of
           Inl e \<Rightarrow> Inl e
         | Inr mr \<Rightarrow>
             (case py_div (of_int n_zero_epoch) (rand_max_wr + mr) of
                Inl e \<Rightarrow> Inl e
              | Inr q \<Rightarrow> Inr \<lceil>rand_max_wr * q\<rceil>))
      else Inr n_zero_epoch)"

definition get_triple_dist ::
  "int \<Rightarrow> int \<Rightarrow> int \<Rightarrow> int \<Rightarrow> dist_kwargs \<Rightarrow> py_error + (int \<times> int \<times> int)" where
  "get_triple_dist n_one n_zero_rand n_zero_max n_samples kw =
     (let n_zero = n_zero_rand + n_zero_max in
      case one_zero_ratio n_one n_zero (one_zero_beta kw) (one_zero_delta kw) of
        Inl e \<Rightarrow> Inl e
      | Inr oz_ratio \<Rightarrow>
          (case ceil_div n_one oz_ratio of
             Inl e \<Rightarrow> Inl e
           | Inr n_zero_epoch \<Rightarrow>
               (case rand_max_weight n_one n_zero_rand n_zero_max n_samples
                       (rand_max_b kw) (rand_max_alpha kw) of
                  Inl e \<Rightarrow> Inl e
                | Inr rand_max_wr \<Rightarrow>
                    (case n_zero_rand_epoch_of n_zero_epoch n_zero_rand n_zero_max rand_max_wr of
                       Inl e \<Rightarrow> Inl e
                     | Inr n_zero_rand_epoch \<Rightarrow>
                         Inr (n_one, n_zero_rand_epoch, n_zero_epoch - n_zero_rand_epoch)))))"

text \<open>
  \<^verbatim>\<open>
  def _n_mini_epoch(n_samples, epoch_size):
      if n_samples <= 0 or epoch_size <= 0:
          return 0
      return ceil(n_samples/epoch_size)
  \<close>
\<close>

definition n_mini_epoch :: "int \<Rightarrow> int \<Rightarrow> int" where
  "n_mini_epoch n_samples epoch_size =
     (if n_samples \<le> 0 \<or> epoch_size \<le> 0 then 0
      else \<lceil>real_of_int n_samples / real_of_int epoch_size\<rceil>)"

section \<open>Arrays, the store and the random generator\<close>

text \<open>
  Arrays are objects: the caller's arrays and the arrays the function creates live in a
  store, and a variable holds an address. \<open>ints\<close> holds the content of the arrays of whole
  numbers (the labels \<^verbatim>\<open>y\<close>, \<^verbatim>\<open>train_idx\<close>, the values of the provenance map), \<open>rows\<close>
  the feature matrices (\<^verbatim>\<open>X\<close>, a list of rows of any type), \<open>nxt\<close> is the next free
  address, and \<open>rng\<close> is the state of numpy's global random generator.

  \<open>dtypes\<close> holds the element type numpy gives the object at an address when it uses it as
  an array: \<open>IntType\<close> for an integer array and for a non-empty Python list of integers,
  \<open>FloatType\<close> for a float array and for the empty Python list \<^verbatim>\<open>[]\<close>
  (\<^verbatim>\<open>np.array([])\<close> is of type \<^verbatim>\<open>float64\<close>).
\<close>

type_synonym addr = nat

datatype dtype = IntType | FloatType

record ('x, 'g) world =
  ints :: "addr \<Rightarrow> int list"
  dtypes :: "addr \<Rightarrow> dtype"
  rows :: "addr \<Rightarrow> 'x list"
  nxt :: addr
  rng :: 'g

text \<open>
  \<^verbatim>\<open>np.random.shuffle\<close> is external. It is a parameter: from the generator state and the
  content of an array it gives the new content and the new state. That it permutes is a
  hypothesis of the theorems that need it.
\<close>

type_synonym 'g shuffler = "'g \<Rightarrow> int list \<Rightarrow> int list \<times> 'g"

definition permutes_all :: "'g shuffler \<Rightarrow> bool" where
  "permutes_all sh = (\<forall>g xs. mset (fst (sh g xs)) = mset xs)"

text \<open>
  \<^verbatim>\<open>np.array(values, dtype=np.int)\<close> builds a new integer array, at a fresh address.
\<close>

definition np_array :: "int list \<Rightarrow> ('x, 'g) world \<Rightarrow> addr \<times> ('x, 'g) world" where
  "np_array xs w =
     (nxt w, w\<lparr>ints := (ints w)(nxt w := xs), dtypes := (dtypes w)(nxt w := IntType),
              nxt := Suc (nxt w)\<rparr>)"

text \<open>
  \<^verbatim>\<open>np.append(a, b)\<close> builds a new array too. Its element type is the common type of the
  two arguments: integer when both are, float otherwise.
\<close>

definition common_type :: "dtype \<Rightarrow> dtype \<Rightarrow> dtype" where
  "common_type k l = (if k = IntType \<and> l = IntType then IntType else FloatType)"

definition np_append :: "addr \<Rightarrow> addr \<Rightarrow> ('x, 'g) world \<Rightarrow> addr \<times> ('x, 'g) world" where
  "np_append a b w =
     (nxt w, w\<lparr>ints := (ints w)(nxt w := ints w a @ ints w b),
              dtypes := (dtypes w)(nxt w := common_type (dtypes w a) (dtypes w b)),
              nxt := Suc (nxt w)\<rparr>)"

text \<open>\<^verbatim>\<open>np.random.shuffle(a)\<close> rewrites the array at address \<open>a\<close> in place.\<close>

definition np_shuffle :: "'g shuffler \<Rightarrow> addr \<Rightarrow> ('x, 'g) world \<Rightarrow> ('x, 'g) world" where
  "np_shuffle sh a w =
     (case sh (rng w) (ints w a) of (ys, g) \<Rightarrow> w\<lparr>ints := (ints w)(a := ys), rng := g\<rparr>)"

text \<open>
  Indexing with an integer array, \<^verbatim>\<open>xs[idx]\<close>: a new array. An index \<open>i\<close> is valid when
  \<open>- n \<le> i < n\<close>, a negative one counts from the end; any other raises \<^verbatim>\<open>IndexError\<close>.
\<close>

definition valid_index :: "nat \<Rightarrow> int \<Rightarrow> bool" where
  "valid_index n i = (- int n \<le> i \<and> i < int n)"

definition np_get :: "'a list \<Rightarrow> int \<Rightarrow> 'a" where
  "np_get xs i = xs ! nat (if i < 0 then i + int (length xs) else i)"

definition np_take :: "'a list \<Rightarrow> int list \<Rightarrow> py_error + 'a list" where
  "np_take xs idx =
     (if list_all (valid_index (length xs)) idx then Inr (map (np_get xs) idx)
      else Inl IndexError)"

text \<open>
  \<^verbatim>\<open>idx[np.where(y[idx] == label)]\<close>: the entries of \<open>idx\<close> whose label is \<open>label\<close>, in order.
  \<open>k\<close> is the element type of \<open>idx\<close>: numpy refuses an index array that is not of integer
  type (\<^verbatim>\<open>IndexError: arrays used as indices must be of integer (or boolean) type\<close>).
\<close>

definition select_label :: "int list \<Rightarrow> int \<Rightarrow> dtype \<Rightarrow> int list \<Rightarrow> py_error + int list" where
  "select_label y label k idx =
     (if k \<noteq> IntType then Inl IndexError
      else
        (case np_take y idx of
           Inl e \<Rightarrow> Inl e
         | Inr labels \<Rightarrow> Inr (map fst (filter (\<lambda>(i, l). l = label) (zip idx labels)))))"

text \<open>
  A slice \<^verbatim>\<open>xs[lo:hi]\<close>: a negative bound counts from the end, and both bounds are clipped
  to the array.
\<close>

definition clip_bound :: "nat \<Rightarrow> int \<Rightarrow> nat" where
  "clip_bound n i = nat (if i < 0 then max 0 (i + int n) else min i (int n))"

definition py_slice :: "'a list \<Rightarrow> int \<Rightarrow> int \<Rightarrow> 'a list" where
  "py_slice xs lo hi =
     take (clip_bound (length xs) hi - clip_bound (length xs) lo)
       (drop (clip_bound (length xs) lo) xs)"

section \<open>The scheduler\<close>

subsection \<open>The two candidate pools\<close>

text \<open>
  \<^verbatim>\<open>
  max_idx = np.array(query_kwargs["query_src"].get("max", []), dtype=np.int)
  rand_idx = np.array([], dtype=np.int)
  for qtype in query_kwargs["query_src"]:
      if qtype != "max":
          rand_idx = np.append(rand_idx, query_kwargs["query_src"][qtype])
  # Write them back for next round.
  if shuffle:
      np.random.shuffle(rand_idx)
      np.random.shuffle(max_idx)
  \<close>
  The provenance map is a dictionary from the name of a query strategy to an array of
  indices: an association list in insertion order (the keys of a dictionary are distinct),
  whose values are addresses of arrays (or lists) owned by the caller. The array
  \<^verbatim>\<open>max_idx\<close> is of integer type whatever the entry is; the array \<^verbatim>\<open>rand_idx\<close> starts as
  an integer array and takes the common type at each \<^verbatim>\<open>np.append\<close>, so a single entry
  that is an empty Python list turns the union into a float array.
\<close>

type_synonym query_src = "(string \<times> addr) list"

fun append_pools :: "query_src \<Rightarrow> addr \<Rightarrow> ('x, 'g) world \<Rightarrow> addr \<times> ('x, 'g) world" where
  "append_pools [] rand_idx w = (rand_idx, w)"
| "append_pools ((qtype, a) # qs) rand_idx w =
     (if qtype \<noteq> ''max'' then
        (case np_append rand_idx a w of (rand_idx', w') \<Rightarrow> append_pools qs rand_idx' w')
      else append_pools qs rand_idx w)"

text \<open>\<^verbatim>\<open>query_kwargs["query_src"].get("max", [])\<close>: the content of the entry, or nothing.\<close>

definition max_pool :: "query_src \<Rightarrow> ('x, 'g) world \<Rightarrow> int list" where
  "max_pool qs w = (case map_of qs ''max'' of None \<Rightarrow> [] | Some a \<Rightarrow> ints w a)"

definition collect_pools ::
  "'g shuffler \<Rightarrow> bool \<Rightarrow> query_src \<Rightarrow> ('x, 'g) world \<Rightarrow> (addr \<times> addr) \<times> ('x, 'g) world" where
  "collect_pools sh shuffle qs w =
     (case np_array (max_pool qs w) w of
        (max_idx, w1) \<Rightarrow>
          (case np_array [] w1 of
             (rand0, w2) \<Rightarrow>
               (case append_pools qs rand0 w2 of
                  (rand_idx, w3) \<Rightarrow>
                    ((rand_idx, max_idx),
                     (if shuffle then np_shuffle sh max_idx (np_shuffle sh rand_idx w3)
                      else w3)))))"

subsection \<open>Replication and the mini epochs\<close>

text \<open>
  From here on every array is a local one that indexing or \<^verbatim>\<open>np.append\<close> has just built
  and that nothing else refers to, so it is passed by value.
  \<^verbatim>\<open>
  while len(one_idx) < n_one_epoch*n_mini_epoch:
      one_idx = np.append(one_idx, one_idx)
  while (n_zero_rand_epoch and
         len(zero_rand_idx) < n_zero_rand_epoch*n_mini_epoch):
      zero_rand_idx = np.append(zero_rand_idx, zero_rand_idx)
  \<close>
  (and the same for \<^verbatim>\<open>zero_max_idx\<close>). A loop that does not end is the value \<open>None\<close>.
\<close>

partial_function (option) replicate_idx :: "int list \<Rightarrow> int \<Rightarrow> int list option" where
  "replicate_idx idx target =
     (if int (length idx) < target then replicate_idx (idx @ idx) target else Some idx)"

partial_function (option) replicate_idx_if :: "int \<Rightarrow> int list \<Rightarrow> int \<Rightarrow> int list option" where
  "replicate_idx_if n_epoch idx target =
     (if n_epoch \<noteq> 0 \<and> int (length idx) < target
      then replicate_idx_if n_epoch (idx @ idx) target else Some idx)"

text \<open>
  \<^verbatim>\<open>
  all_idx = np.array([], dtype=int)
  for i in range(n_mini_epoch):
      new_one_idx = one_idx[i*n_one_epoch:(i+1)*n_one_epoch]
      new_zero_rand_idx = zero_rand_idx[i*n_zero_rand_epoch:(i+1)*n_zero_rand_epoch]
      new_zero_max_idx = zero_max_idx[i*n_zero_max_epoch:(i+1)*n_zero_max_epoch]
      new_idx = new_one_idx
      new_idx = np.append(new_idx, new_zero_rand_idx)
      new_idx = np.append(new_idx, new_zero_max_idx)
      if shuffle:
          np.random.shuffle(new_idx)
      all_idx = np.append(all_idx, new_idx)
  \<close>
  The array that is shuffled is the one the second \<^verbatim>\<open>np.append\<close> has built, not the
  slice of \<^verbatim>\<open>one_idx\<close>: the three replicated groups keep their order from one mini epoch
  to the next.
\<close>

definition mini_epoch_idx ::
  "'g shuffler \<Rightarrow> bool \<Rightarrow> int list \<Rightarrow> int list \<Rightarrow> int list \<Rightarrow> int \<times> int \<times> int
     \<Rightarrow> int \<Rightarrow> 'g \<Rightarrow> int list \<times> 'g" where
  "mini_epoch_idx sh shuffle one_idx zero_rand_idx zero_max_idx counts i g =
     (case counts of
        (n_one_epoch, n_zero_rand_epoch, n_zero_max_epoch) \<Rightarrow>
          (let new_idx =
                 py_slice one_idx (i * n_one_epoch) ((i + 1) * n_one_epoch)
                 @ py_slice zero_rand_idx (i * n_zero_rand_epoch) ((i + 1) * n_zero_rand_epoch)
                 @ py_slice zero_max_idx (i * n_zero_max_epoch) ((i + 1) * n_zero_max_epoch)
           in if shuffle then sh g new_idx else (new_idx, g)))"

fun build_all_idx ::
  "'g shuffler \<Rightarrow> bool \<Rightarrow> int list \<Rightarrow> int list \<Rightarrow> int list \<Rightarrow> int \<times> int \<times> int
     \<Rightarrow> int list \<Rightarrow> int list \<Rightarrow> 'g \<Rightarrow> int list \<times> 'g" where
  "build_all_idx sh shuffle one_idx zero_rand_idx zero_max_idx counts [] all_idx g = (all_idx, g)"
| "build_all_idx sh shuffle one_idx zero_rand_idx zero_max_idx counts (i # rest) all_idx g =
     (case mini_epoch_idx sh shuffle one_idx zero_rand_idx zero_max_idx counts i g of
        (new_idx, g') \<Rightarrow>
          build_all_idx sh shuffle one_idx zero_rand_idx zero_max_idx counts rest
            (all_idx @ new_idx) g')"

text \<open>
  \<^verbatim>\<open>
  n_mini_epoch = max(_n_mini_epoch(n_one, n_one_epoch),
                     _n_mini_epoch(n_zero_rand, n_zero_rand_epoch),
                     _n_mini_epoch(n_zero_max, n_zero_max_epoch))
  \<close>
\<close>

definition mini_epochs :: "int list \<Rightarrow> int list \<Rightarrow> int list \<Rightarrow> int \<times> int \<times> int \<Rightarrow> int" where
  "mini_epochs one_idx zero_rand_idx zero_max_idx counts =
     (case counts of
        (n_one_epoch, n_zero_rand_epoch, n_zero_max_epoch) \<Rightarrow>
          max (n_mini_epoch (int (length one_idx)) n_one_epoch)
            (max (n_mini_epoch (int (length zero_rand_idx)) n_zero_rand_epoch)
                 (n_mini_epoch (int (length zero_max_idx)) n_zero_max_epoch)))"

text \<open>
  The index sequence \<^verbatim>\<open>all_idx\<close> that the three groups and the three counts give, with
  the state of the generator after the shuffles.
\<close>

definition schedule_idx ::
  "'g shuffler \<Rightarrow> bool \<Rightarrow> int list \<Rightarrow> int list \<Rightarrow> int list \<Rightarrow> int \<times> int \<times> int
     \<Rightarrow> 'g \<Rightarrow> (int list \<times> 'g) option" where
  "schedule_idx sh shuffle one_idx zero_rand_idx zero_max_idx counts g =
     (case counts of
        (n_one_epoch, n_zero_rand_epoch, n_zero_max_epoch) \<Rightarrow>
          (let n_mini = mini_epochs one_idx zero_rand_idx zero_max_idx counts in
           case replicate_idx one_idx (n_one_epoch * n_mini) of
             None \<Rightarrow> None
           | Some ones \<Rightarrow>
               (case replicate_idx_if n_zero_rand_epoch zero_rand_idx
                       (n_zero_rand_epoch * n_mini) of
                  None \<Rightarrow> None
                | Some zero_rands \<Rightarrow>
                    (case replicate_idx_if n_zero_max_epoch zero_max_idx
                            (n_zero_max_epoch * n_mini) of
                       None \<Rightarrow> None
                     | Some zero_maxs \<Rightarrow>
                         Some (build_all_idx sh shuffle ones zero_rands zero_maxs counts
                                 [0..n_mini - 1] [] g)))))"

subsection \<open>The epochs of the fit configuration\<close>

text \<open>
  The fit configuration is a dictionary; the value the scheduler writes is an integer, any
  other value is of a type the scheduler does not look at.
\<close>

datatype 'o fit_value = IntV int | OtherV 'o

type_synonym 'o fit_kwargs = "string \<rightharpoonup> 'o fit_value"

text \<open>
  \<^verbatim>\<open>
  if 'epochs' in fit_kwargs:
      efrac_one = n_one_epoch/n_one
      efrac_zero_rand = n_zero_rand_epoch/n_zero_rand
      if n_zero_max:
          efrac_zero_max = n_zero_max_epoch/n_zero_max
          efrac = (efrac_one*efrac_zero_rand*efrac_zero_max)**(1./3.)
      else:
          efrac = (efrac_one*efrac_zero_rand)**(1./2.)
      efrac = 1.0
      fit_kwargs['epochs'] = ceil(pref_epochs/(efrac*n_mini_epoch))
  \<close>
\<close>

definition effective_fraction ::
  "int \<times> int \<times> int \<Rightarrow> int \<Rightarrow> int \<Rightarrow> int \<Rightarrow> py_error + pynum" where
  "effective_fraction counts n_one n_zero_rand n_zero_max =
     (case counts of
        (n_one_epoch, n_zero_rand_epoch, n_zero_max_epoch) \<Rightarrow>
          (case py_div (of_int n_one_epoch) (of_int n_one) of
             Inl e \<Rightarrow> Inl e
           | Inr efrac_one \<Rightarrow>
               (case py_div (of_int n_zero_rand_epoch) (of_int n_zero_rand) of
                  Inl e \<Rightarrow> Inl e
                | Inr efrac_zero_rand \<Rightarrow>
                    (if n_zero_max \<noteq> 0 then
                       (case py_div (of_int n_zero_max_epoch) (of_int n_zero_max) of
                          Inl e \<Rightarrow> Inl e
                        | Inr efrac_zero_max \<Rightarrow>
                            py_pow (efrac_one * efrac_zero_rand * efrac_zero_max) (1 / 3))
                     else py_pow (efrac_one * efrac_zero_rand) (1 / 2)))))"

definition set_epochs ::
  "'o fit_kwargs \<Rightarrow> int \<Rightarrow> int \<times> int \<times> int \<Rightarrow> int \<Rightarrow> int \<Rightarrow> int \<Rightarrow> int
     \<Rightarrow> py_error + 'o fit_kwargs" where
  "set_epochs fit_kwargs pref_epochs counts n_one n_zero_rand n_zero_max n_mini =
     (if ''epochs'' \<in> dom fit_kwargs then
        (case effective_fraction counts n_one n_zero_rand n_zero_max of
           Inl e \<Rightarrow> Inl e
         | Inr efrac_computed \<Rightarrow>
             (let efrac = 1 in
              case py_div (of_int pref_epochs) (efrac * of_int n_mini) of
                Inl e \<Rightarrow> Inl e
              | Inr q \<Rightarrow> Inr (fit_kwargs(''epochs'' \<mapsto> IntV \<lceil>q\<rceil>))))
      else Inr fit_kwargs)"

subsection \<open>The top-level operation\<close>

text \<open>
  The outcome of a call: the store and the fit configuration as the call leaves them
  (also when it raises), and the exception raised or the pair returned. \<open>None\<close> is a call
  that does not return.

  \<^verbatim>\<open>full_sample\<close> is imported from another module. It is a parameter: a function of the
  contents of \<^verbatim>\<open>X\<close>, \<^verbatim>\<open>y\<close> and \<^verbatim>\<open>train_idx\<close> that returns a pair (features, labels).
\<close>

type_synonym ('x, 'g, 'o) outcome =
  "('x, 'g) world \<times> 'o fit_kwargs \<times> (py_error + 'x list \<times> int list)"

text \<open>The part of \<^verbatim>\<open>triple_balance\<close> after the two fallback tests, lines 155 to 209.\<close>

definition triple_path ::
  "'g shuffler \<Rightarrow> ('x, 'g) world \<Rightarrow> addr \<Rightarrow> addr \<Rightarrow> 'o fit_kwargs \<Rightarrow> int \<Rightarrow> bool \<Rightarrow> dist_kwargs
     \<Rightarrow> int list \<Rightarrow> int list \<Rightarrow> int list \<Rightarrow> ('x, 'g, 'o) outcome option" where
  "triple_path sh w X y fit_kwargs pref_epochs shuffle kw one_idx zero_rand_idx zero_max_idx =
     (let n_one = int (length one_idx);
          n_zero_rand = int (length zero_rand_idx);
          n_zero_max = int (length zero_max_idx);
          n_samples = int (length (ints w y))
      in case get_triple_dist n_one n_zero_rand n_zero_max n_samples kw of
           Inl e \<Rightarrow> Some (w, fit_kwargs, Inl e)
         | Inr counts \<Rightarrow>
             (case schedule_idx sh shuffle one_idx zero_rand_idx zero_max_idx counts (rng w) of
                None \<Rightarrow> None
              | Some (all_idx, g) \<Rightarrow>
                  (case set_epochs fit_kwargs pref_epochs counts n_one n_zero_rand n_zero_max
                          (mini_epochs one_idx zero_rand_idx zero_max_idx counts) of
                     Inl e \<Rightarrow> Some (w\<lparr>rng := g\<rparr>, fit_kwargs, Inl e)
                   | Inr fit_kwargs' \<Rightarrow>
                       (case np_take (rows w X) all_idx of
                          Inl e \<Rightarrow> Some (w\<lparr>rng := g\<rparr>, fit_kwargs', Inl e)
                        | Inr Xs \<Rightarrow>
                            (case np_take (ints w y) all_idx of
                               Inl e \<Rightarrow> Some (w\<lparr>rng := g\<rparr>, fit_kwargs', Inl e)
                             | Inr ys \<Rightarrow> Some (w\<lparr>rng := g\<rparr>, fit_kwargs', Inr (Xs, ys)))))))"

text \<open>
  \<^verbatim>\<open>
  def triple_balance(X, y, train_idx, fit_kwargs={}, query_kwargs={"query_src": {}},
                     pref_epochs=1, shuffle=True, **dist_kwargs):
      ... (the two pools, see above)
      if len(rand_idx) == 0 or len(max_idx) == 0:
          return full_sample(X, y, train_idx)
      one_idx = train_idx[np.where(y[train_idx] == 1)]
      zero_max_idx = max_idx[np.where(y[max_idx] == 0)]
      zero_rand_idx = rand_idx[np.where(y[rand_idx] == 0)]
      if len(zero_rand_idx) == 0 or len(zero_max_idx) == 0:
          return full_sample(X, y, train_idx)
      ... (the triple path, see above)
  \<close>
  \<^verbatim>\<open>query_kwargs["query_src"]\<close> raises \<^verbatim>\<open>KeyError\<close> when the key is missing.
\<close>

definition triple_balance ::
  "'g shuffler \<Rightarrow> ('x list \<Rightarrow> int list \<Rightarrow> int list \<Rightarrow> 'x list \<times> int list)
     \<Rightarrow> ('x, 'g) world \<Rightarrow> addr \<Rightarrow> addr \<Rightarrow> addr \<Rightarrow> 'o fit_kwargs \<Rightarrow> (string \<rightharpoonup> query_src)
     \<Rightarrow> int \<Rightarrow> bool \<Rightarrow> dist_kwargs \<Rightarrow> ('x, 'g, 'o) outcome option" where
  "triple_balance sh full_sample w X y train_idx fit_kwargs query_kwargs pref_epochs shuffle kw =
     (case query_kwargs ''query_src'' of
        None \<Rightarrow> Some (w, fit_kwargs, Inl KeyError)
      | Some qs \<Rightarrow>
          (case collect_pools sh shuffle qs w of
             ((rand_idx, max_idx), w1) \<Rightarrow>
               (if length (ints w1 rand_idx) = 0 \<or> length (ints w1 max_idx) = 0 then
                  Some (w1, fit_kwargs,
                        Inr (full_sample (rows w1 X) (ints w1 y) (ints w1 train_idx)))
                else
                  (case select_label (ints w1 y) 1 (dtypes w1 train_idx) (ints w1 train_idx) of
                     Inl e \<Rightarrow> Some (w1, fit_kwargs, Inl e)
                   | Inr one_idx \<Rightarrow>
                       (case select_label (ints w1 y) 0 (dtypes w1 max_idx) (ints w1 max_idx) of
                          Inl e \<Rightarrow> Some (w1, fit_kwargs, Inl e)
                        | Inr zero_max_idx \<Rightarrow>
                            (case select_label (ints w1 y) 0 (dtypes w1 rand_idx) (ints w1 rand_idx) of
                               Inl e \<Rightarrow> Some (w1, fit_kwargs, Inl e)
                             | Inr zero_rand_idx \<Rightarrow>
                                 (if length zero_rand_idx = 0 \<or> length zero_max_idx = 0 then
                                    Some (w1, fit_kwargs,
                                          Inr (full_sample (rows w1 X) (ints w1 y)
                                                 (ints w1 train_idx)))
                                  else
                                    triple_path sh w1 X y fit_kwargs pref_epochs shuffle kw
                                      one_idx zero_rand_idx zero_max_idx)))))))"

section \<open>Notions used to state the properties\<close>

text \<open>
  The union of the entries of the provenance map other than \<open>max\<close>, in the order of the
  map: what the loop over the map appends to the empty array.
\<close>

definition rand_pool :: "query_src \<Rightarrow> ('x, 'g) world \<Rightarrow> int list" where
  "rand_pool qs w =
     concat (map (\<lambda>(qtype, a). ints w a) (filter (\<lambda>(qtype, a). qtype \<noteq> ''max'') qs))"

text \<open>
  The element type of that union: integer when every entry other than \<open>max\<close> is of integer
  type, float as soon as one is not.
\<close>

definition rand_dtype :: "query_src \<Rightarrow> ('x, 'g) world \<Rightarrow> dtype" where
  "rand_dtype qs w =
     (if list_all (\<lambda>(qtype, a). qtype = ''max'' \<or> dtypes w a = IntType) qs then IntType
      else FloatType)"

text \<open>
  Every array the caller passes exists in the store: its address is below the next free
  one.
\<close>

definition allocated :: "('x, 'g) world \<Rightarrow> addr \<Rightarrow> addr \<Rightarrow> query_src \<Rightarrow> bool" where
  "allocated w y train_idx qs =
     (y < nxt w \<and> train_idx < nxt w \<and> list_all (\<lambda>(qtype, a). a < nxt w) qs)"

text \<open>
  The calls that reach the triple path: neither fallback test fires and no indexing
  raises. The value is the store at that point and the three groups
  (\<^verbatim>\<open>one_idx\<close>, \<^verbatim>\<open>zero_rand_idx\<close>, \<^verbatim>\<open>zero_max_idx\<close>).
\<close>

definition triple_groups ::
  "'g shuffler \<Rightarrow> ('x, 'g) world \<Rightarrow> addr \<Rightarrow> addr \<Rightarrow> (string \<rightharpoonup> query_src) \<Rightarrow> bool
     \<Rightarrow> (('x, 'g) world \<times> int list \<times> int list \<times> int list) option" where
  "triple_groups sh w y train_idx query_kwargs shuffle =
     (case query_kwargs ''query_src'' of
        None \<Rightarrow> None
      | Some qs \<Rightarrow>
          (case collect_pools sh shuffle qs w of
             ((rand_idx, max_idx), w1) \<Rightarrow>
               (if ints w1 rand_idx = [] \<or> ints w1 max_idx = [] then None
                else
                  (case select_label (ints w1 y) 1 (dtypes w1 train_idx) (ints w1 train_idx) of
                     Inl e \<Rightarrow> None
                   | Inr one_idx \<Rightarrow>
                       (case select_label (ints w1 y) 0 (dtypes w1 max_idx) (ints w1 max_idx) of
                          Inl e \<Rightarrow> None
                        | Inr zero_max_idx \<Rightarrow>
                            (case select_label (ints w1 y) 0 (dtypes w1 rand_idx) (ints w1 rand_idx) of
                               Inl e \<Rightarrow> None
                             | Inr zero_rand_idx \<Rightarrow>
                                 (if zero_rand_idx = [] \<or> zero_max_idx = [] then None
                                  else Some (w1, one_idx, zero_rand_idx, zero_max_idx))))))))"

text \<open>
  What a call may do to the store it is given: allocate new arrays, and nothing else. Every
  array that exists before exists after with the same content and the same element type,
  and no feature matrix changes.
\<close>

definition frame :: "('x, 'g) world \<Rightarrow> ('x, 'g) world \<Rightarrow> bool" where
  "frame w w' =
     (nxt w \<le> nxt w' \<and> rows w' = rows w
      \<and> (\<forall>a<nxt w. ints w' a = ints w a \<and> dtypes w' a = dtypes w a))"

section \<open>Concrete inputs\<close>

text \<open>
  A pool of six items, the first two with label 1. Address 0 holds \<^verbatim>\<open>y\<close>, address 1
  \<^verbatim>\<open>train_idx\<close>, addresses 2 and 3 the two entries of the provenance map, all of them
  integer arrays; the rows of \<^verbatim>\<open>X\<close> are the numbers 10 to 15. The generator has a single
  state, and the shuffle used with it reverses an array.
\<close>

definition rev_shuffler :: "unit shuffler" where
  "rev_shuffler g xs = (rev xs, g)"

text \<open>In the concrete inputs the fallback returns the rows and labels at \<^verbatim>\<open>train_idx\<close>.\<close>

definition sample_all :: "nat list \<Rightarrow> int list \<Rightarrow> int list \<Rightarrow> nat list \<times> int list" where
  "sample_all X y train_idx = (map (np_get X) train_idx, map (np_get y) train_idx)"

definition world0 :: "(nat, unit) world" where
  "world0 =
     \<lparr>ints = (\<lambda>a. [])(0 := [1, 1, 0, 0, 0, 0], 1 := [0, 1, 2, 3, 4, 5], 2 := [2, 3], 3 := [4, 5]),
      dtypes = (\<lambda>a. IntType),
      rows = (\<lambda>a. [])(0 := [10, 11, 12, 13, 14, 15]),
      nxt = 4, rng = ()\<rparr>"

definition query_kwargs0 :: "string \<rightharpoonup> query_src" where
  "query_kwargs0 = [''query_src'' \<mapsto> [(''max'', 2), (''random'', 3)]]"

definition fit_kwargs0 :: "unit fit_kwargs" where
  "fit_kwargs0 = [''epochs'' \<mapsto> IntV 5, ''verbose'' \<mapsto> OtherV ()]"

definition kwargs0 :: dist_kwargs where
  "kwargs0 = \<lparr>rand_max_b = 1, rand_max_alpha = 1, one_zero_beta = 0, one_zero_delta = 1 / 2\<rparr>"

text \<open>
  The store after the two pools are collected from \<open>world0\<close>: the copy of the \<open>max\<close>
  entry at address 4, the empty array at 5 and the union of the other entries at 6;
  without a shuffle, and with the reversing shuffle.
\<close>

definition world0_pools :: "(nat, unit) world" where
  "world0_pools = world0\<lparr>ints := (ints world0)(4 := [2, 3], 5 := [], 6 := [4, 5]), nxt := 7\<rparr>"

definition world0_shuffled :: "(nat, unit) world" where
  "world0_shuffled = world0\<lparr>ints := (ints world0)(4 := [3, 2], 5 := [], 6 := [5, 4]), nxt := 7\<rparr>"

text \<open>The same pool with every label 0: no training index has label 1.\<close>

definition world_no_ones :: "(nat, unit) world" where
  "world_no_ones = world0\<lparr>ints := (ints world0)(0 := [0, 0, 0, 0, 0, 0])\<rparr>"

definition world_no_ones_pools :: "(nat, unit) world" where
  "world_no_ones_pools =
     world_no_ones\<lparr>ints := (ints world_no_ones)(4 := [2, 3], 5 := [], 6 := [4, 5]), nxt := 7\<rparr>"

definition world_no_ones_shuffled :: "(nat, unit) world" where
  "world_no_ones_shuffled =
     world_no_ones\<lparr>ints := (ints world_no_ones)(4 := [3, 2], 5 := [], 6 := [5, 4]), nxt := 7\<rparr>"

text \<open>The same pool where the \<open>max\<close> entry holds the two items of label 1 only.\<close>

definition world_max_ones :: "(nat, unit) world" where
  "world_max_ones = world0\<lparr>ints := (ints world0)(2 := [0, 1])\<rparr>"

text \<open>
  The pool of \<open>world_max_ones\<close> with a third entry in the provenance map, \<^verbatim>\<open>'extra': []\<close>,
  an empty Python list, at address 4; and the store after the two pools are collected from
  it: the copy of the \<open>max\<close> entry at address 5, the empty integer array at 6, the union
  with the entry \<open>random\<close> at 7, and the union with the entry \<open>extra\<close>, a float array,
  at 8.
\<close>

definition world_empty_entry :: "(nat, unit) world" where
  "world_empty_entry =
     world_max_ones\<lparr>ints := (ints world_max_ones)(4 := []),
       dtypes := (dtypes world_max_ones)(4 := FloatType), nxt := 5\<rparr>"

definition query_kwargs_empty_entry :: "string \<rightharpoonup> query_src" where
  "query_kwargs_empty_entry = [''query_src'' \<mapsto> [(''max'', 2), (''random'', 3), (''extra'', 4)]]"

definition world_empty_entry_pools :: "(nat, unit) world" where
  "world_empty_entry_pools =
     world_empty_entry\<lparr>ints := (ints world_empty_entry)(5 := [0, 1], 6 := [], 7 := [4, 5], 8 := [4, 5]),
       dtypes := (dtypes world_empty_entry)(5 := IntType, 6 := IntType, 7 := IntType, 8 := FloatType),
       nxt := 9\<rparr>"

text \<open>The keyword parameters of \<open>kwargs0\<close> with a negative \<open>rand_max_b\<close>.\<close>

definition kwargs_negative_b :: dist_kwargs where
  "kwargs_negative_b = kwargs0\<lparr>rand_max_b := - 1\<rparr>"

text \<open>
  The same pool where the other entry lists six items of label 0, as many as the pool has
  items (two of them twice, and two that the \<open>max\<close> entry lists too).
\<close>

definition world_many_rand :: "(nat, unit) world" where
  "world_many_rand = world0\<lparr>ints := (ints world0)(3 := [2, 3, 4, 5, 4, 5])\<rparr>"

definition world_many_rand_pools :: "(nat, unit) world" where
  "world_many_rand_pools =
     world_many_rand\<lparr>ints := (ints world_many_rand)(4 := [2, 3], 5 := [], 6 := [2, 3, 4, 5, 4, 5]),
       nxt := 7\<rparr>"

section \<open>Properties of the arithmetic\<close>

lemma py_pow_nonneg:
  assumes "0 \<le> x" "0 \<le> y"
  shows "\<exists>p. py_pow x y = Inr (PyFloat p) \<and> 0 \<le> p"
  using assms by (auto simp: py_pow_def)

lemma py_pow_pos:
  assumes "0 < x"
  shows "\<exists>p. py_pow x y = Inr (PyFloat p) \<and> 0 < p"
  using assms by (auto simp: py_pow_def)

lemma one_zero_ratio_pos:
  assumes "0 \<le> n_one" "0 < n_zero" "0 \<le> beta" "0 < delta" "delta < 1"
  shows "\<exists>q. one_zero_ratio n_one n_zero beta delta = Inr (PyFloat q) \<and> delta \<le> q"
proof -
  have "0 \<le> real_of_int n_one / real_of_int n_zero"
    using assms by simp
  then obtain p where p: "py_pow (real_of_int n_one / real_of_int n_zero) beta = Inr (PyFloat p)" "0 \<le> p"
    using py_pow_nonneg [OF _ assms(3)] by blast
  have "0 \<le> (1 - delta) * p" using assms p by simp
  then show ?thesis
    using assms p by (simp add: one_zero_ratio_def py_div_def)
qed

lemma rand_max_weight_pos:
  assumes "0 < n_one + n_zero_max" "n_zero_rand < n_samples" "0 < b"
  shows "\<exists>r. rand_max_weight n_one n_zero_rand n_zero_max n_samples b alpha = Inr r \<and> 0 < r"
proof -
  have "0 < real_of_int (n_one + n_zero_max) / real_of_int (n_samples - n_zero_rand)"
    using assms by simp
  then obtain p where p: "py_pow (real_of_int (n_one + n_zero_max) / real_of_int (n_samples - n_zero_rand)) alpha = Inr (PyFloat p)"
    using py_pow_pos by blast
  show ?thesis
    using assms p by (simp add: rand_max_weight_def py_div_def py_log_def)
qed

lemma n_zero_rand_epoch_of_bound:
  assumes "0 \<le> n_zero_epoch" "0 < n_zero_rand" "0 < n_zero_max" "0 < wr"
  shows "\<exists>r. n_zero_rand_epoch_of n_zero_epoch n_zero_rand n_zero_max wr = Inr r
            \<and> r = \<lceil>wr * (real_of_int n_zero_epoch / (wr + real_of_int n_zero_max / real_of_int n_zero_rand))\<rceil>
            \<and> 0 \<le> r \<and> r \<le> n_zero_epoch"
proof -
  define mr where "mr = real_of_int n_zero_max / real_of_int n_zero_rand"
  have mr: "0 < mr" using assms by (simp add: mr_def)
  have d: "0 < wr + mr" using assms mr by simp
  define q where "q = real_of_int n_zero_epoch / (wr + mr)"
  have q0: "0 \<le> q" using assms d by (simp add: q_def)
  have "wr * q = real_of_int n_zero_epoch * (wr / (wr + mr))"
    by (simp add: q_def)
  also have "\<dots> \<le> real_of_int n_zero_epoch * 1"
    using assms d mr by (intro mult_left_mono) (simp_all add: field_simps)
  finally have le: "wr * q \<le> real_of_int n_zero_epoch" by simp
  have ge: "0 \<le> wr * q" using assms q0 by simp
  have "\<lceil>wr * q\<rceil> \<le> n_zero_epoch" using le by (simp add: ceiling_le_iff)
  moreover have "0 \<le> \<lceil>wr * q\<rceil>" using ge by (simp add: le_ceiling_iff)
  moreover have "n_zero_rand_epoch_of n_zero_epoch n_zero_rand n_zero_max wr = Inr \<lceil>wr * q\<rceil>"
    using assms d by (simp add: n_zero_rand_epoch_of_def py_div_def q_def mr_def)
  ultimately show ?thesis by (simp add: q_def mr_def)
qed

lemma get_triple_dist_fst:
  assumes "get_triple_dist n_one n_zero_rand n_zero_max n_samples kw = Inr (a, b, c)"
  shows "a = n_one"
  using assms by (auto simp: get_triple_dist_def Let_def split: sum.splits)

lemma n_mini_epoch_nonneg: "0 \<le> n_mini_epoch n e"
proof (cases "n \<le> 0 \<or> e \<le> 0")
  case True
  then show ?thesis by (simp add: n_mini_epoch_def)
next
  case False
  then have "0 \<le> real_of_int n / real_of_int e" by simp
  then have "0 \<le> \<lceil>real_of_int n / real_of_int e\<rceil>"
    using ceiling_mono [of 0 "real_of_int n / real_of_int e"] by simp
  then show ?thesis using False by (simp add: n_mini_epoch_def)
qed

lemma n_mini_epoch_least:
  assumes "0 < n" "0 < e"
  shows "n \<le> n_mini_epoch n e * e \<and> (\<forall>k. n \<le> k * e \<longrightarrow> n_mini_epoch n e \<le> k)"
proof -
  have e: "0 < real_of_int e" using assms by simp
  have "real_of_int n / real_of_int e \<le> real_of_int \<lceil>real_of_int n / real_of_int e\<rceil>"
    by (rule le_of_int_ceiling)
  then have "real_of_int n \<le> real_of_int \<lceil>real_of_int n / real_of_int e\<rceil> * real_of_int e"
    by (simp only: pos_divide_le_eq [OF e])
  then have a: "n \<le> \<lceil>real_of_int n / real_of_int e\<rceil> * e"
    by (metis of_int_le_iff of_int_mult)
  have b: "\<lceil>real_of_int n / real_of_int e\<rceil> \<le> k" if "n \<le> k * e" for k
  proof -
    have "real_of_int n \<le> real_of_int k * real_of_int e"
      using that by (metis of_int_le_iff of_int_mult)
    then have "real_of_int n / real_of_int e \<le> real_of_int k"
      by (simp only: pos_divide_le_eq [OF e])
    then show ?thesis by (simp add: ceiling_le_iff)
  qed
  show ?thesis using assms a b by (simp add: n_mini_epoch_def)
qed

section \<open>Properties of the loops\<close>

lemma replicate_idx_returns:
  assumes "idx \<noteq> [] \<or> target \<le> int (length idx)"
  shows "\<exists>ys. replicate_idx idx target = Some ys \<and> target \<le> int (length ys)"
  using assms
proof (induction "nat (target - int (length idx))" arbitrary: idx rule: less_induct)
  case less
  show ?case
  proof (cases "int (length idx) < target")
    case True
    then have ne: "idx \<noteq> []" using less.prems by auto
    then have "0 < length idx" by simp
    then have "nat (target - int (length (idx @ idx))) < nat (target - int (length idx))"
      using True by simp
    then obtain ys where "replicate_idx (idx @ idx) target = Some ys" "target \<le> int (length ys)"
      using less.hyps [of "idx @ idx"] ne by auto
    then show ?thesis
      using True by (subst replicate_idx.simps) simp
  next
    case False
    then show ?thesis
      by (subst replicate_idx.simps) simp
  qed
qed

lemma replicate_idx_if_returns:
  assumes "idx \<noteq> [] \<or> n_epoch = 0 \<or> target \<le> int (length idx)"
  shows "\<exists>ys. replicate_idx_if n_epoch idx target = Some ys
            \<and> (n_epoch \<noteq> 0 \<longrightarrow> target \<le> int (length ys))"
  using assms
proof (induction "nat (target - int (length idx))" arbitrary: idx rule: less_induct)
  case less
  show ?case
  proof (cases "n_epoch \<noteq> 0 \<and> int (length idx) < target")
    case True
    then have ne: "idx \<noteq> []" using less.prems by auto
    then have "0 < length idx" by simp
    then have "nat (target - int (length (idx @ idx))) < nat (target - int (length idx))"
      using True by simp
    then obtain ys where "replicate_idx_if n_epoch (idx @ idx) target = Some ys"
        "n_epoch \<noteq> 0 \<longrightarrow> target \<le> int (length ys)"
      using less.hyps [of "idx @ idx"] ne by auto
    then show ?thesis
      using True by (subst replicate_idx_if.simps) simp
  next
    case False
    then show ?thesis
      by (subst replicate_idx_if.simps) auto
  qed
qed

lemma length_py_slice:
  assumes "0 \<le> lo" "lo \<le> hi" "hi \<le> int (length xs)"
  shows "length (py_slice xs lo hi) = nat (hi - lo)"
  using assms by (auto simp: py_slice_def clip_bound_def min_def)

lemma length_py_slice_epoch:
  assumes "0 \<le> n" "0 \<le> i" "i < m" "n \<noteq> 0 \<longrightarrow> n * m \<le> int (length xs)"
  shows "length (py_slice xs (i * n) ((i + 1) * n)) = nat n"
proof (cases "n = 0")
  case True
  then show ?thesis by (simp add: py_slice_def clip_bound_def)
next
  case False
  have "(i + 1) * n \<le> m * n"
    using assms by (intro mult_right_mono) simp_all
  moreover have "m * n \<le> int (length xs)"
    using assms(4) False by (simp add: mult.commute)
  ultimately have hi: "(i + 1) * n \<le> int (length xs)"
    by (rule order_trans)
  have lo: "0 \<le> i * n" using assms by simp
  have "i * n \<le> (i + 1) * n" using assms by (simp add: algebra_simps)
  from length_py_slice [OF lo this hi] show ?thesis
    by (simp add: algebra_simps)
qed

lemma length_mini_epoch_idx:
  assumes sh: "permutes_all sh"
    and "0 \<le> a" "0 \<le> b" "0 \<le> c" "0 \<le> i" "i < m"
    and "a \<noteq> 0 \<longrightarrow> a * m \<le> int (length ones)"
    and "b \<noteq> 0 \<longrightarrow> b * m \<le> int (length zrs)"
    and "c \<noteq> 0 \<longrightarrow> c * m \<le> int (length zms)"
  shows "length (fst (mini_epoch_idx sh shuffle ones zrs zms (a, b, c) i g)) = nat (a + b + c)"
proof -
  have len: "length (fst (sh g xs)) = length xs" for xs
    using sh mset_eq_length unfolding permutes_all_def by blast
  have "length (py_slice ones (i * a) ((i + 1) * a)) = nat a"
       "length (py_slice zrs (i * b) ((i + 1) * b)) = nat b"
       "length (py_slice zms (i * c) ((i + 1) * c)) = nat c"
    using assms by (simp_all add: length_py_slice_epoch)
  then show ?thesis
    using assms(2-4) by (simp add: mini_epoch_idx_def Let_def len nat_add_distrib)
qed

lemma length_build_all_idx:
  assumes sh: "permutes_all sh"
    and "0 \<le> a" "0 \<le> b" "0 \<le> c"
    and "a \<noteq> 0 \<longrightarrow> a * m \<le> int (length ones)"
    and "b \<noteq> 0 \<longrightarrow> b * m \<le> int (length zrs)"
    and "c \<noteq> 0 \<longrightarrow> c * m \<le> int (length zms)"
    and "\<forall>i\<in>set rounds. 0 \<le> i \<and> i < m"
  shows "length (fst (build_all_idx sh shuffle ones zrs zms (a, b, c) rounds acc g))
           = length acc + length rounds * nat (a + b + c)"
  using assms(8)
proof (induction rounds arbitrary: acc g)
  case Nil
  then show ?case by simp
next
  case (Cons i rounds)
  obtain new_idx g' where m: "mini_epoch_idx sh shuffle ones zrs zms (a, b, c) i g = (new_idx, g')"
    by (cases "mini_epoch_idx sh shuffle ones zrs zms (a, b, c) i g")
  have "length new_idx = nat (a + b + c)"
    using length_mini_epoch_idx [OF sh assms(2-4) _ _ assms(5-7), of i shuffle g] Cons.prems m
    by simp
  then show ?case
    using Cons m by simp
qed

section \<open>Properties of the store\<close>

lemma frame_refl: "frame w w"
  by (simp add: frame_def)

lemma frame_trans: "frame w w1 \<Longrightarrow> frame w1 w2 \<Longrightarrow> frame w w2"
  by (auto simp: frame_def)

lemma np_array_frame:
  assumes "np_array xs w = (a, w')"
  shows "frame w w' \<and> a = nxt w \<and> nxt w' = Suc (nxt w) \<and> ints w' a = xs \<and> rng w' = rng w
       \<and> dtypes w' a = IntType"
  using assms by (auto simp: np_array_def frame_def)

lemma np_append_frame:
  assumes "np_append a b w = (c, w')"
  shows "frame w w' \<and> c = nxt w \<and> nxt w' = Suc (nxt w) \<and> ints w' c = ints w a @ ints w b
       \<and> rng w' = rng w \<and> dtypes w' c = common_type (dtypes w a) (dtypes w b)"
  using assms by (auto simp: np_append_def frame_def)

lemma np_shuffle_frame:
  assumes "nxt w0 \<le> a"
  shows "frame w0 w \<Longrightarrow> frame w0 (np_shuffle sh a w)"
  using assms by (auto simp: np_shuffle_def frame_def split: prod.splits)

lemma append_pools_frame:
  assumes "append_pools qs r w = (r', w')"
  shows "frame w w' \<and> (r' = r \<or> nxt w \<le> r') \<and> (r < nxt w \<longrightarrow> r' < nxt w')"
  using assms
proof (induction qs arbitrary: r w)
  case Nil
  then show ?case by (simp add: frame_refl)
next
  case (Cons p qs)
  obtain qtype a where p: "p = (qtype, a)" by (cases p)
  show ?case
  proof (cases "qtype \<noteq> ''max''")
    case True
    obtain r1 w1 where a1: "np_append r a w = (r1, w1)" by (cases "np_append r a w")
    then have f1: "frame w w1" "r1 = nxt w" "nxt w1 = Suc (nxt w)"
      using np_append_frame [of r a w r1 w1] by auto
    have "append_pools qs r1 w1 = (r', w')"
      using Cons.prems p True a1 by simp
    from Cons.IH [OF this] have "frame w1 w'" "r' = r1 \<or> nxt w1 \<le> r'" "r1 < nxt w1 \<longrightarrow> r' < nxt w'"
      by simp_all
    then show ?thesis
      using f1 frame_trans [of w w1 w'] by auto
  next
    case False
    then have "append_pools qs r w = (r', w')"
      using Cons.prems p by simp
    from Cons.IH [OF this] show ?thesis .
  qed
qed

lemma rand_pool_frame:
  assumes "frame w w'" "list_all (\<lambda>(qtype, a). a < nxt w) qs"
  shows "rand_pool qs w' = rand_pool qs w"
  using assms(2)
proof (induction qs)
  case Nil
  then show ?case by (simp add: rand_pool_def)
next
  case (Cons p qs)
  obtain qtype a where p: "p = (qtype, a)" by (cases p)
  then have "a < nxt w" using Cons.prems by simp
  then have "ints w' a = ints w a" using assms(1) by (simp add: frame_def)
  moreover have "rand_pool qs w' = rand_pool qs w" using Cons by simp
  ultimately show ?case using p by (simp add: rand_pool_def)
qed

lemma rand_dtype_frame:
  assumes "frame w w'" "list_all (\<lambda>(qtype, a). a < nxt w) qs"
  shows "rand_dtype qs w' = rand_dtype qs w"
proof -
  have "dtypes w' a = dtypes w a" if "(qtype, a) \<in> set qs" for qtype a
    using that assms by (auto simp: list_all_iff frame_def)
  then have "list_all (\<lambda>(qtype, a). qtype = ''max'' \<or> dtypes w' a = IntType) qs
           \<longleftrightarrow> list_all (\<lambda>(qtype, a). qtype = ''max'' \<or> dtypes w a = IntType) qs"
    by (auto simp: list_all_iff)
  then show ?thesis by (simp add: rand_dtype_def)
qed

lemma max_pool_frame:
  assumes "frame w w'" "list_all (\<lambda>(qtype, a). a < nxt w) qs"
  shows "max_pool qs w' = max_pool qs w"
proof (cases "map_of qs ''max''")
  case None
  then show ?thesis by (simp add: max_pool_def)
next
  case (Some a)
  then have "(''max'', a) \<in> set qs" by (rule map_of_SomeD)
  then have "a < nxt w" using assms(2) by (auto simp: list_all_iff)
  then have "ints w' a = ints w a" using assms(1) by (simp add: frame_def)
  then show ?thesis using Some by (simp add: max_pool_def)
qed

lemma append_pools_content:
  assumes "append_pools qs r w = (r', w')"
    and "list_all (\<lambda>(qtype, a). a < nxt w) qs" "r < nxt w"
  shows "ints w' r' = ints w r @ rand_pool qs w \<and> rng w' = rng w
       \<and> dtypes w' r' = common_type (dtypes w r) (rand_dtype qs w)"
  using assms
proof (induction qs arbitrary: r w)
  case Nil
  then show ?case by (cases "dtypes w r") (simp_all add: rand_pool_def rand_dtype_def common_type_def)
next
  case (Cons p qs)
  obtain qtype a where p: "p = (qtype, a)" by (cases p)
  have a: "a < nxt w" and rest: "list_all (\<lambda>(qtype, a). a < nxt w) qs"
    using Cons.prems(2) p by simp_all
  show ?case
  proof (cases "qtype \<noteq> ''max''")
    case True
    obtain r1 w1 where a1: "np_append r a w = (r1, w1)" by (cases "np_append r a w")
    then have f1: "frame w w1" "r1 = nxt w" "nxt w1 = Suc (nxt w)" "ints w1 r1 = ints w r @ ints w a"
        "rng w1 = rng w" "dtypes w1 r1 = common_type (dtypes w r) (dtypes w a)"
      using np_append_frame [of r a w r1 w1] by auto
    have ap: "append_pools qs r1 w1 = (r', w')"
      using Cons.prems p True a1 by simp
    have "list_all (\<lambda>(qtype, a). a < nxt w1) qs"
      using rest f1(3) by (auto simp: list_all_iff)
    from Cons.IH [OF ap this] f1 have "ints w' r' = ints w1 r1 @ rand_pool qs w1" "rng w' = rng w1"
        "dtypes w' r' = common_type (dtypes w1 r1) (rand_dtype qs w1)"
      by simp_all
    moreover have "rand_pool qs w1 = rand_pool qs w"
      using rand_pool_frame [OF f1(1) rest] .
    moreover have "rand_dtype qs w1 = rand_dtype qs w"
      using rand_dtype_frame [OF f1(1) rest] .
    moreover have "common_type (common_type (dtypes w r) (dtypes w a)) (rand_dtype qs w)
                     = common_type (dtypes w r) (rand_dtype (p # qs) w)"
      using p True by (simp add: common_type_def rand_dtype_def)
    ultimately show ?thesis
      using f1 p True by (simp add: rand_pool_def)
  next
    case False
    then have "append_pools qs r w = (r', w')"
      using Cons.prems p by simp
    from Cons.IH [OF this rest Cons.prems(3)] show ?thesis
      using False p by (simp add: rand_pool_def rand_dtype_def)
  qed
qed

lemma collect_pools_frame:
  assumes "collect_pools sh shuffle qs w = ((rand_idx, max_idx), w1)"
  shows "frame w w1"
proof -
  obtain m wa where a: "np_array (max_pool qs w) w = (m, wa)" by (cases "np_array (max_pool qs w) w")
  obtain r0 wb where b: "np_array [] wa = (r0, wb)" by (cases "np_array [] wa")
  obtain r wc where c: "append_pools qs r0 wb = (r, wc)" by (cases "append_pools qs r0 wb")
  have fa: "frame w wa" "m = nxt w" "nxt wa = Suc (nxt w)" using np_array_frame [OF a] by auto
  have fb: "frame wa wb" "r0 = nxt wa" "nxt wb = Suc (nxt wa)" using np_array_frame [OF b] by auto
  have fc: "frame wb wc" "r = r0 \<or> nxt wb \<le> r" using append_pools_frame [OF c] by simp_all
  have fw: "frame w wc" using fa(1) fb(1) fc(1) frame_trans by blast
  have rm: "rand_idx = r" "max_idx = m"
    and w1: "w1 = (if shuffle then np_shuffle sh m (np_shuffle sh r wc) else wc)"
    using assms a b c by (simp_all add: collect_pools_def)
  have "nxt w \<le> r" "nxt w \<le> m" using fa fb fc by auto
  then show ?thesis
    using fw w1 by (simp add: np_shuffle_frame)
qed

lemma collect_pools_content:
  assumes "collect_pools sh shuffle qs w = ((rand_idx, max_idx), w1)"
    and al: "list_all (\<lambda>(qtype, a). a < nxt w) qs"
    and sh: "permutes_all sh"
  shows "mset (ints w1 rand_idx) = mset (rand_pool qs w) \<and> mset (ints w1 max_idx) = mset (max_pool qs w)
       \<and> dtypes w1 rand_idx = rand_dtype qs w \<and> dtypes w1 max_idx = IntType"
proof -
  obtain m wa where a: "np_array (max_pool qs w) w = (m, wa)" by (cases "np_array (max_pool qs w) w")
  obtain r0 wb where b: "np_array [] wa = (r0, wb)" by (cases "np_array [] wa")
  obtain r wc where c: "append_pools qs r0 wb = (r, wc)" by (cases "append_pools qs r0 wb")
  have fa: "frame w wa" "m = nxt w" "nxt wa = Suc (nxt w)" "ints wa m = max_pool qs w"
      "dtypes wa m = IntType"
    using np_array_frame [OF a] by auto
  have fb: "frame wa wb" "r0 = nxt wa" "nxt wb = Suc (nxt wa)" "ints wb r0 = []"
      "dtypes wb r0 = IntType"
    using np_array_frame [OF b] by auto
  have fc: "frame wb wc" "r = r0 \<or> nxt wb \<le> r" using append_pools_frame [OF c] by simp_all
  have alb: "list_all (\<lambda>(qtype, a). a < nxt wb) qs"
    using al fa(3) fb(3) by (auto simp: list_all_iff)
  have "ints wc r = ints wb r0 @ rand_pool qs wb"
      and "dtypes wc r = common_type (dtypes wb r0) (rand_dtype qs wb)"
    using append_pools_content [OF c alb] fb by simp_all
  moreover have "rand_pool qs wb = rand_pool qs w"
    using rand_pool_frame [OF frame_trans [OF fa(1) fb(1)] al] .
  moreover have "rand_dtype qs wb = rand_dtype qs w"
    using rand_dtype_frame [OF frame_trans [OF fa(1) fb(1)] al] .
  ultimately have r: "ints wc r = rand_pool qs w" and rk: "dtypes wc r = rand_dtype qs w"
    using fb by (simp_all add: common_type_def rand_dtype_def)
  have "m < nxt wa" using fa by simp
  then have "ints wb m = ints wa m" "dtypes wb m = dtypes wa m"
    using fb(1) by (simp_all add: frame_def)
  moreover have "m < nxt wb" using fa fb by simp
  then have "ints wc m = ints wb m" "dtypes wc m = dtypes wb m"
    using fc(1) by (simp_all add: frame_def)
  ultimately have m: "ints wc m = max_pool qs w" and mk: "dtypes wc m = IntType"
    using fa by simp_all
  have ne: "r \<noteq> m" using fa fb fc by auto
  have rm: "rand_idx = r" "max_idx = m"
    and w1: "w1 = (if shuffle then np_shuffle sh m (np_shuffle sh r wc) else wc)"
    using assms a b c by (simp_all add: collect_pools_def)
  have p: "mset (fst (sh g xs)) = mset xs" for g xs
    using sh by (simp add: permutes_all_def)
  show ?thesis
  proof (cases shuffle)
    case False
    then show ?thesis using w1 rm r m rk mk by simp
  next
    case True
    obtain ys g1 where s1: "sh (rng wc) (ints wc r) = (ys, g1)" by (cases "sh (rng wc) (ints wc r)")
    obtain zs g2 where s2: "sh g1 (ints wc m) = (zs, g2)" by (cases "sh g1 (ints wc m)")
    have "mset ys = mset (ints wc r)" using p [of "rng wc" "ints wc r"] s1 by simp
    moreover have "mset zs = mset (ints wc m)" using p [of g1 "ints wc m"] s2 by simp
    moreover have "ints w1 r = ys" "ints w1 m = zs" "dtypes w1 r = dtypes wc r"
        "dtypes w1 m = dtypes wc m"
      using True w1 s1 s2 ne by (simp_all add: np_shuffle_def)
    ultimately show ?thesis using rm r m rk mk by simp
  qed
qed


section \<open>Properties of the schedule\<close>

lemma mini_epochs_nonneg: "0 \<le> mini_epochs one zr zm counts"
  by (cases counts) (simp add: mini_epochs_def n_mini_epoch_nonneg le_max_iff_disj)

lemma schedule_idx_returns:
  assumes "zr \<noteq> []" "zm \<noteq> []"
  shows "\<exists>all_idx g. schedule_idx sh shuffle one zr zm (int (length one), b, c) gen = Some (all_idx, g)"
proof -
  define n where "n = mini_epochs one zr zm (int (length one), b, c)"
  have n0: "0 \<le> n" by (simp add: n_def mini_epochs_nonneg)
  have "one \<noteq> [] \<or> int (length one) * n \<le> int (length one)" by auto
  then obtain ones where ones: "replicate_idx one (int (length one) * n) = Some ones"
    using replicate_idx_returns by blast
  obtain zrs where zrs: "replicate_idx_if b zr (b * n) = Some zrs"
    using replicate_idx_if_returns [of zr b "b * n"] assms by auto
  obtain zms where zms: "replicate_idx_if c zm (c * n) = Some zms"
    using replicate_idx_if_returns [of zm c "c * n"] assms by auto
  show ?thesis
    using ones zrs zms
    by (cases "build_all_idx sh shuffle ones zrs zms (int (length one), b, c) [0..n - 1] [] gen")
       (simp add: schedule_idx_def n_def)
qed

lemma schedule_idx_length:
  assumes sh: "permutes_all sh" and "zr \<noteq> []" "zm \<noteq> []" "0 \<le> b" "0 \<le> c"
  shows "\<exists>all_idx g. schedule_idx sh shuffle one zr zm (int (length one), b, c) gen = Some (all_idx, g)
           \<and> int (length all_idx)
               = mini_epochs one zr zm (int (length one), b, c) * (int (length one) + b + c)"
proof -
  define a where "a = int (length one)"
  define n where "n = mini_epochs one zr zm (a, b, c)"
  have a0: "0 \<le> a" by (simp add: a_def)
  have n0: "0 \<le> n" by (simp add: n_def mini_epochs_nonneg)
  have "one \<noteq> [] \<or> a * n \<le> int (length one)" by (auto simp: a_def)
  then obtain ones where ones: "replicate_idx one (a * n) = Some ones" "a * n \<le> int (length ones)"
    using replicate_idx_returns by blast
  obtain zrs where zrs: "replicate_idx_if b zr (b * n) = Some zrs" "b \<noteq> 0 \<longrightarrow> b * n \<le> int (length zrs)"
    using replicate_idx_if_returns [of zr b "b * n"] assms by auto
  obtain zms where zms: "replicate_idx_if c zm (c * n) = Some zms" "c \<noteq> 0 \<longrightarrow> c * n \<le> int (length zms)"
    using replicate_idx_if_returns [of zm c "c * n"] assms by auto
  obtain all_idx g where b: "build_all_idx sh shuffle ones zrs zms (a, b, c) [0..n - 1] [] gen = (all_idx, g)"
    by (cases "build_all_idx sh shuffle ones zrs zms (a, b, c) [0..n - 1] [] gen")
  have "length (fst (build_all_idx sh shuffle ones zrs zms (a, b, c) [0..n - 1] [] gen))
          = length ([]::int list) + length [0..n - 1] * nat (a + b + c)"
    using ones(2) zrs(2) zms(2)
    by (intro length_build_all_idx [OF sh a0 assms(4,5), where m = n]) auto
  then have "length all_idx = nat n * nat (a + b + c)"
    using b by simp
  then have "int (length all_idx) = n * (a + b + c)"
    using n0 a0 assms(4,5) by simp
  moreover have "schedule_idx sh shuffle one zr zm (a, b, c) gen = Some (all_idx, g)"
    using ones zrs zms b by (simp add: schedule_idx_def n_def)
  ultimately show ?thesis by (auto simp: a_def n_def)
qed

lemma triple_balance_triple_path:
  assumes "triple_groups sh w y train_idx query_kwargs shuffle = Some (w1, one_idx, zero_rand_idx, zero_max_idx)"
  shows "triple_balance sh full_sample w X y train_idx fit_kwargs query_kwargs pref_epochs shuffle kw
           = triple_path sh w1 X y fit_kwargs pref_epochs shuffle kw one_idx zero_rand_idx zero_max_idx"
  using assms
  by (auto simp: triple_groups_def triple_balance_def split: option.splits prod.splits sum.splits if_splits)

lemma triple_groups_frame:
  assumes "triple_groups sh w y train_idx query_kwargs shuffle = Some (w1, one_idx, zero_rand_idx, zero_max_idx)"
  shows "frame w w1 \<and> zero_rand_idx \<noteq> [] \<and> zero_max_idx \<noteq> []"
  using assms
  by (auto simp: triple_groups_def collect_pools_frame split: option.splits prod.splits sum.splits if_splits)

lemma effective_fraction_returns:
  assumes "n_one \<noteq> 0" "n_zero_rand \<noteq> 0"
  shows "\<exists>v. effective_fraction counts n_one n_zero_rand n_zero_max = Inr v"
  using assms
  by (cases counts) (auto simp: effective_fraction_def py_div_def py_pow_def)

lemma set_epochs_frame:
  assumes "set_epochs fit_kwargs pref_epochs counts n_one n_zero_rand n_zero_max n_mini = Inr fit_kwargs'"
  shows "fit_kwargs' = fit_kwargs
       \<or> (\<exists>v. ''epochs'' \<in> dom fit_kwargs \<and> fit_kwargs' = fit_kwargs(''epochs'' \<mapsto> IntV v))"
  using assms
  by (auto simp: set_epochs_def Let_def split: if_splits sum.splits)

section \<open>Properties of the triple path\<close>

lemma triple_path_unfold:
  assumes "get_triple_dist (int (length one)) (int (length zr)) (int (length zm))
             (int (length (ints w y))) kw = Inr counts"
    and "schedule_idx sh shuffle one zr zm counts (rng w) = Some (all_idx, g)"
    and "set_epochs fit_kwargs pref_epochs counts (int (length one)) (int (length zr))
           (int (length zm)) (mini_epochs one zr zm counts) = Inr fit_kwargs'"
  shows "triple_path sh w X y fit_kwargs pref_epochs shuffle kw one zr zm
           = Some (w\<lparr>rng := g\<rparr>, fit_kwargs',
                   (case np_take (rows w X) all_idx of
                      Inl e \<Rightarrow> Inl e
                    | Inr Xs \<Rightarrow>
                        (case np_take (ints w y) all_idx of
                           Inl e \<Rightarrow> Inl e
                         | Inr ys \<Rightarrow> Inr (Xs, ys))))"
proof (cases "np_take (rows w X) all_idx")
  case (Inl e)
  then show ?thesis using assms by (simp add: triple_path_def)
next
  case Xs: (Inr Xs)
  show ?thesis
  proof (cases "np_take (ints w y) all_idx")
    case (Inl e)
    then show ?thesis using assms Xs by (simp add: triple_path_def)
  next
    case (Inr ys)
    then show ?thesis using assms Xs by (simp add: triple_path_def)
  qed
qed

lemma triple_path_returns:
  assumes "zr \<noteq> []" "zm \<noteq> []"
  shows "\<exists>g fit_kwargs' r.
           triple_path sh w X y fit_kwargs pref_epochs shuffle kw one zr zm
             = Some (w\<lparr>rng := g\<rparr>, fit_kwargs', r)
           \<and> (fit_kwargs' = fit_kwargs
              \<or> (\<exists>v. ''epochs'' \<in> dom fit_kwargs \<and> fit_kwargs' = fit_kwargs(''epochs'' \<mapsto> IntV v)))"
proof (cases "get_triple_dist (int (length one)) (int (length zr)) (int (length zm))
                (int (length (ints w y))) kw")
  case (Inl e)
  then have "triple_path sh w X y fit_kwargs pref_epochs shuffle kw one zr zm
               = Some (w\<lparr>rng := rng w\<rparr>, fit_kwargs, Inl e)"
    by (simp add: triple_path_def)
  then show ?thesis
    by (intro exI [of _ "rng w"] exI [of _ fit_kwargs] exI [of _ "Inl e"]) simp
next
  case (Inr counts)
  obtain a b c where counts: "counts = (a, b, c)" by (cases counts)
  have a: "a = int (length one)" using Inr counts get_triple_dist_fst by blast
  have "\<exists>all_idx g. schedule_idx sh shuffle one zr zm (int (length one), b, c) (rng w) = Some (all_idx, g)"
    by (rule schedule_idx_returns [OF assms])
  then obtain all_idx g where s: "schedule_idx sh shuffle one zr zm counts (rng w) = Some (all_idx, g)"
    unfolding counts a by (elim exE)
  show ?thesis
  proof (cases "set_epochs fit_kwargs pref_epochs counts (int (length one)) (int (length zr))
                  (int (length zm)) (mini_epochs one zr zm counts)")
    case (Inl e)
    then have "triple_path sh w X y fit_kwargs pref_epochs shuffle kw one zr zm
                 = Some (w\<lparr>rng := g\<rparr>, fit_kwargs, Inl e)"
      using Inr s by (simp add: triple_path_def)
    then show ?thesis
      by (intro exI [of _ g] exI [of _ fit_kwargs] exI [of _ "Inl e"]) simp
  next
    case fk: (Inr fit_kwargs')
    show ?thesis
      using triple_path_unfold [OF Inr s fk] set_epochs_frame [OF fk]
      by (intro exI [of _ g] exI [of _ fit_kwargs']) simp
  qed
qed

lemma mini_epochs_ge_one:
  assumes "one \<noteq> []"
  shows "1 \<le> mini_epochs one zr zm (int (length one), b, c)"
proof -
  have "0 < int (length one)" using assms by simp
  then have "n_mini_epoch (int (length one)) (int (length one)) = 1"
    by (simp add: n_mini_epoch_def)
  then show ?thesis by (simp add: mini_epochs_def le_max_iff_disj)
qed

lemma triple_path_sets_epochs:
  assumes "zr \<noteq> []" "zm \<noteq> []" "one \<noteq> []" "''epochs'' \<in> dom fit_kwargs"
    and d: "get_triple_dist (int (length one)) (int (length zr)) (int (length zm))
              (int (length (ints w y))) kw = Inr counts"
  shows "\<exists>g r. triple_path sh w X y fit_kwargs pref_epochs shuffle kw one zr zm
                 = Some (w\<lparr>rng := g\<rparr>,
                         fit_kwargs(''epochs'' \<mapsto>
                           IntV \<lceil>real_of_int pref_epochs / real_of_int (mini_epochs one zr zm counts)\<rceil>),
                         r)
               \<and> 1 \<le> mini_epochs one zr zm counts"
proof -
  obtain a b c where counts: "counts = (a, b, c)" by (cases counts)
  have a: "a = int (length one)" using d counts get_triple_dist_fst by blast
  have "\<exists>all_idx g. schedule_idx sh shuffle one zr zm (int (length one), b, c) (rng w) = Some (all_idx, g)"
    by (rule schedule_idx_returns [OF assms(1,2)])
  then obtain all_idx g where s: "schedule_idx sh shuffle one zr zm counts (rng w) = Some (all_idx, g)"
    unfolding counts a by (elim exE)
  have n1: "1 \<le> mini_epochs one zr zm counts"
    using mini_epochs_ge_one [OF assms(3)] counts a by simp
  obtain v where v: "effective_fraction counts (int (length one)) (int (length zr)) (int (length zm)) = Inr v"
    using effective_fraction_returns [of "int (length one)" "int (length zr)" counts "int (length zm)"]
      assms(1,3) by auto
  have se: "set_epochs fit_kwargs pref_epochs counts (int (length one)) (int (length zr))
          (int (length zm)) (mini_epochs one zr zm counts)
        = Inr (fit_kwargs(''epochs'' \<mapsto>
                 IntV \<lceil>real_of_int pref_epochs / real_of_int (mini_epochs one zr zm counts)\<rceil>))"
    using assms(4) v n1 by (simp add: set_epochs_def py_div_def)
  have "\<exists>r. triple_path sh w X y fit_kwargs pref_epochs shuffle kw one zr zm
                 = Some (w\<lparr>rng := g\<rparr>,
                         fit_kwargs(''epochs'' \<mapsto>
                           IntV \<lceil>real_of_int pref_epochs / real_of_int (mini_epochs one zr zm counts)\<rceil>),
                         r)"
    using triple_path_unfold [OF d s se] by simp
  then show ?thesis using n1 by blast
qed

lemma triple_path_no_ones:
  assumes "zr \<noteq> []" "zm \<noteq> []" "''epochs'' \<in> dom fit_kwargs"
  shows "\<exists>g e. triple_path sh w X y fit_kwargs pref_epochs shuffle kw [] zr zm
                 = Some (w\<lparr>rng := g\<rparr>, fit_kwargs, Inl e)
               \<and> (e = ZeroDivisionError
                  \<or> get_triple_dist 0 (int (length zr)) (int (length zm)) (int (length (ints w y))) kw
                      = Inl e)"
proof (cases "get_triple_dist 0 (int (length zr)) (int (length zm)) (int (length (ints w y))) kw")
  case (Inl e)
  then have "triple_path sh w X y fit_kwargs pref_epochs shuffle kw [] zr zm
               = Some (w\<lparr>rng := rng w\<rparr>, fit_kwargs, Inl e)"
    by (simp add: triple_path_def)
  then show ?thesis using Inl by blast
next
  case (Inr counts)
  obtain a b c where counts: "counts = (a, b, c)" by (cases counts)
  have a: "a = 0" using Inr counts get_triple_dist_fst by blast
  have "\<exists>all_idx g. schedule_idx sh shuffle [] zr zm (int (length ([]::int list)), b, c) (rng w) = Some (all_idx, g)"
    by (rule schedule_idx_returns [OF assms(1,2)])
  then obtain all_idx g where s: "schedule_idx sh shuffle [] zr zm counts (rng w) = Some (all_idx, g)"
    unfolding counts a by auto
  have "effective_fraction counts 0 (int (length zr)) (int (length zm)) = Inl ZeroDivisionError"
    using counts by (simp add: effective_fraction_def py_div_def)
  then have "set_epochs fit_kwargs pref_epochs counts 0 (int (length zr)) (int (length zm))
               (mini_epochs [] zr zm counts) = Inl ZeroDivisionError"
    using assms(3) by (simp add: set_epochs_def)
  then have "triple_path sh w X y fit_kwargs pref_epochs shuffle kw [] zr zm
               = Some (w\<lparr>rng := g\<rparr>, fit_kwargs, Inl ZeroDivisionError)"
    using Inr s by (simp add: triple_path_def)
  then show ?thesis by blast
qed

lemma one_zero_ratio_no_ones:
  assumes "n_zero \<noteq> 0"
  shows "one_zero_ratio 0 n_zero beta delta = Inl ZeroDivisionError
       \<or> (\<exists>x. one_zero_ratio 0 n_zero beta delta = Inr (PyFloat x))"
  using assms by (simp add: one_zero_ratio_def py_div_def py_pow_def)

lemma ceil_div_float:
  "ceil_div n (PyFloat x) = Inl ZeroDivisionError \<or> (\<exists>k. ceil_div n (PyFloat x) = Inr k)"
  by (simp add: ceil_div_def py_div_def)

lemma get_triple_dist_no_ones:
  assumes "0 < n_zero_rand" "0 < n_zero_max" "n_zero_rand \<le> n_samples" "0 < rand_max_b kw"
    and e: "get_triple_dist 0 n_zero_rand n_zero_max n_samples kw = Inl e"
  shows "e = ZeroDivisionError"
proof -
  have nz: "n_zero_rand + n_zero_max \<noteq> 0" using assms by simp
  consider "one_zero_ratio 0 (n_zero_rand + n_zero_max) (one_zero_beta kw) (one_zero_delta kw)
              = Inl ZeroDivisionError"
    | x where "one_zero_ratio 0 (n_zero_rand + n_zero_max) (one_zero_beta kw) (one_zero_delta kw)
              = Inr (PyFloat x)"
    using one_zero_ratio_no_ones [OF nz] by blast
  then show ?thesis
  proof cases
    case 1
    then show ?thesis using e by (simp add: get_triple_dist_def)
  next
    case (2 x)
    consider "ceil_div 0 (PyFloat x) = Inl ZeroDivisionError" | k where "ceil_div 0 (PyFloat x) = Inr k"
      using ceil_div_float by blast
    then show ?thesis
    proof cases
      case 1
      then show ?thesis using e 2 by (simp add: get_triple_dist_def)
    next
      case k: (2 k)
      then have k0: "k = 0" by (simp add: ceil_div_def py_div_def split: if_splits)
      show ?thesis
      proof (cases "n_samples = n_zero_rand")
        case True
        then have "rand_max_weight 0 n_zero_rand n_zero_max n_samples (rand_max_b kw) (rand_max_alpha kw)
                     = Inl ZeroDivisionError"
          by (simp add: rand_max_weight_def py_div_def)
        then show ?thesis using e 2 k by (simp add: get_triple_dist_def)
      next
        case False
        then have lt: "n_zero_rand < n_samples" using assms(3) by simp
        obtain wr where wr:
            "rand_max_weight 0 n_zero_rand n_zero_max n_samples (rand_max_b kw) (rand_max_alpha kw)
               = Inr wr" "0 < wr"
          using rand_max_weight_pos [of 0 n_zero_max n_zero_rand n_samples "rand_max_b kw"] assms lt
          by auto
        obtain r where "n_zero_rand_epoch_of 0 n_zero_rand n_zero_max wr = Inr r"
          using n_zero_rand_epoch_of_bound [of 0 n_zero_rand n_zero_max wr] assms wr by blast
        then show ?thesis using e 2 k k0 wr by (simp add: get_triple_dist_def)
      qed
    qed
  qed
qed

lemma get_triple_dist_all_rand:
  "\<exists>e. get_triple_dist n_one n n_zero_max n kw = Inl e"
proof -
  have wr: "rand_max_weight n_one n n_zero_max n (rand_max_b kw) (rand_max_alpha kw)
              = Inl ZeroDivisionError"
    by (simp add: rand_max_weight_def py_div_def)
  show ?thesis
  proof (cases "one_zero_ratio n_one (n + n_zero_max) (one_zero_beta kw) (one_zero_delta kw)")
    case (Inl e)
    then show ?thesis by (simp add: get_triple_dist_def)
  next
    case (Inr oz)
    show ?thesis
    proof (cases "ceil_div n_one oz")
      case (Inl e)
      then show ?thesis using Inr by (simp add: get_triple_dist_def)
    next
      case k: (Inr k)
      then show ?thesis using Inr wr by (simp add: get_triple_dist_def)
    qed
  qed
qed

lemma get_triple_dist_no_zeros:
  "get_triple_dist n_one 0 0 n_samples kw = Inl ZeroDivisionError"
  by (simp add: get_triple_dist_def one_zero_ratio_def py_div_def)

section \<open>Evaluation of the concrete inputs\<close>

lemma fun_upd_const: "(\<lambda>a. k)(x := k) = (\<lambda>a. k)"
  by (simp add: fun_eq_iff)

lemmas pool_defs = collect_pools_def max_pool_def np_array_def np_append_def np_shuffle_def
  rev_shuffler_def query_kwargs0_def common_type_def fun_upd_const

lemmas label_defs = select_label_def np_take_def valid_index_def np_get_def

lemmas dist_defs = get_triple_dist_def one_zero_ratio_def py_div_def py_pow_def py_log_def
  ceil_div_def rand_max_weight_def n_zero_rand_epoch_of_def kwargs0_def

lemmas schedule_defs = schedule_idx_def mini_epochs_def n_mini_epoch_def replicate_idx.simps
  replicate_idx_if.simps upto.simps mini_epoch_idx_def py_slice_def clip_bound_def rev_shuffler_def

lemma permutes_all_rev_shuffler: "permutes_all rev_shuffler"
  by (simp add: permutes_all_def rev_shuffler_def)

lemma collect_pools_world0:
  "collect_pools rev_shuffler False [(''max'', 2), (''random'', 3)] world0 = ((6, 4), world0_pools)"
  by (simp add: pool_defs world0_def world0_pools_def)

lemma collect_pools_world0_shuffled:
  "collect_pools rev_shuffler True [(''max'', 2), (''random'', 3)] world0 = ((6, 4), world0_shuffled)"
  by (simp add: pool_defs world0_def world0_shuffled_def fun_upd_twist)

lemma triple_groups_world0:
  "triple_groups rev_shuffler world0 0 1 query_kwargs0 False
     = Some (world0_pools, [0, 1], [4, 5], [2, 3])"
  by (simp add: triple_groups_def query_kwargs0_def collect_pools_world0)
     (simp add: world0_pools_def world0_def label_defs)

lemma triple_groups_world0_shuffled:
  "triple_groups rev_shuffler world0 0 1 query_kwargs0 True
     = Some (world0_shuffled, [0, 1], [5, 4], [3, 2])"
  by (simp add: triple_groups_def query_kwargs0_def collect_pools_world0_shuffled)
     (simp add: world0_shuffled_def world0_def label_defs)

lemma get_triple_dist_world0: "get_triple_dist 2 2 2 6 kwargs0 = Inr (2, 1, 1)"
  by (simp add: dist_defs)

lemma get_triple_dist_no_ones0: "get_triple_dist 0 2 2 6 kwargs0 = Inr (0, 0, 0)"
  by (simp add: dist_defs)

lemma schedule_idx_world0:
  "schedule_idx rev_shuffler False [0, 1] [4, 5] [2, 3] (2, 1, 1) () = Some ([0, 1, 4, 2, 0, 1, 5, 3], ())"
  by (simp add: schedule_defs)

lemma schedule_idx_world0_shuffled:
  "schedule_idx rev_shuffler True [0, 1] [5, 4] [3, 2] (2, 1, 1) () = Some ([3, 5, 1, 0, 2, 4, 1, 0], ())"
  by (simp add: schedule_defs)

lemma mini_epochs_world0: "mini_epochs [0, 1] [4, 5] [2, 3] (2, 1, 1) = 2"
  by (simp add: mini_epochs_def n_mini_epoch_def)

lemma triple_groups_no_ones:
  "triple_groups rev_shuffler world_no_ones 0 1 query_kwargs0 False
     = Some (world_no_ones_pools, [], [4, 5], [2, 3])"
proof -
  have "collect_pools rev_shuffler False [(''max'', 2), (''random'', 3)] world_no_ones
          = ((6, 4), world_no_ones_pools)"
    by (simp add: pool_defs world_no_ones_def world0_def world_no_ones_pools_def)
  then show ?thesis
    by (simp add: triple_groups_def query_kwargs0_def)
       (simp add: world_no_ones_pools_def world_no_ones_def world0_def label_defs)
qed

lemma triple_groups_no_ones_shuffled:
  "triple_groups rev_shuffler world_no_ones 0 1 query_kwargs0 True
     = Some (world_no_ones_shuffled, [], [5, 4], [3, 2])"
proof -
  have "collect_pools rev_shuffler True [(''max'', 2), (''random'', 3)] world_no_ones
          = ((6, 4), world_no_ones_shuffled)"
    by (simp add: pool_defs world_no_ones_def world0_def world_no_ones_shuffled_def fun_upd_twist)
  then show ?thesis
    by (simp add: triple_groups_def query_kwargs0_def)
       (simp add: world_no_ones_shuffled_def world_no_ones_def world0_def label_defs)
qed

section \<open>Properties of the whole call\<close>

lemma triple_balance_no_groups:
  assumes "triple_groups sh w y train_idx query_kwargs shuffle = None"
  shows "\<exists>w' r. triple_balance sh full_sample w X y train_idx fit_kwargs query_kwargs pref_epochs
                   shuffle kw = Some (w', fit_kwargs, r)
               \<and> frame w w'"
proof (cases "query_kwargs ''query_src''")
  case None
  then show ?thesis by (simp add: triple_balance_def frame_refl)
next
  case (Some qs)
  obtain rand_idx max_idx w1 where cp: "collect_pools sh shuffle qs w = ((rand_idx, max_idx), w1)"
    by (metis surj_pair)
  have f: "frame w w1" using cp by (rule collect_pools_frame)
  show ?thesis
  proof (cases "ints w1 rand_idx = [] \<or> ints w1 max_idx = []")
    case True
    then show ?thesis using Some cp f by (auto simp: triple_balance_def)
  next
    case pools: False
    show ?thesis
    proof (cases "select_label (ints w1 y) 1 (dtypes w1 train_idx) (ints w1 train_idx)")
      case (Inl e)
      then show ?thesis using Some cp f pools by (simp add: triple_balance_def)
    next
      case one: (Inr one_idx)
      show ?thesis
      proof (cases "select_label (ints w1 y) 0 (dtypes w1 max_idx) (ints w1 max_idx)")
        case (Inl e)
        then show ?thesis using Some cp f pools one by (simp add: triple_balance_def)
      next
        case zm: (Inr zero_max_idx)
        show ?thesis
        proof (cases "select_label (ints w1 y) 0 (dtypes w1 rand_idx) (ints w1 rand_idx)")
          case (Inl e)
          then show ?thesis using Some cp f pools one zm by (simp add: triple_balance_def)
        next
          case zr: (Inr zero_rand_idx)
          have "zero_rand_idx = [] \<or> zero_max_idx = []"
            using assms Some cp pools one zm zr by (simp add: triple_groups_def split: if_splits)
          then show ?thesis
            using Some cp f pools one zm zr by (auto simp: triple_balance_def)
        qed
      qed
    qed
  qed
qed

lemma frame_rng: "frame w w1 \<Longrightarrow> frame w (w1\<lparr>rng := g\<rparr>)"
  by (simp add: frame_def)

lemma triple_groups_many_rand:
  "triple_groups rev_shuffler world_many_rand 0 1 query_kwargs0 False
     = Some (world_many_rand_pools, [0, 1], [2, 3, 4, 5, 4, 5], [2, 3])"
proof -
  have "collect_pools rev_shuffler False [(''max'', 2), (''random'', 3)] world_many_rand
          = ((6, 4), world_many_rand_pools)"
    by (simp add: pool_defs world_many_rand_def world0_def world_many_rand_pools_def)
  then show ?thesis
    by (simp add: triple_groups_def query_kwargs0_def)
       (simp add: world_many_rand_pools_def world_many_rand_def world0_def label_defs)
qed

section \<open>Properties of the partition by label\<close>

lemma filter_zip_map:
  "map fst (filter (\<lambda>(i, v). v = l) (zip idx (map f idx))) = filter (\<lambda>i. f i = l) idx"
  by (induction idx) simp_all

lemma select_label_filter:
  "select_label y l IntType idx =
     (if list_all (valid_index (length y)) idx then Inr (filter (\<lambda>i. np_get y i = l) idx)
      else Inl IndexError)"
  by (simp add: select_label_def np_take_def filter_zip_map)

lemma select_label_int:
  assumes "select_label y l k xs = Inr zs"
  shows "k = IntType"
  using assms by (cases k) (simp_all add: select_label_def)

lemma select_label_perm:
  assumes "mset xs' = mset xs" "select_label y l IntType xs = Inr zs"
  shows "\<exists>zs'. select_label y l IntType xs' = Inr zs' \<and> (zs' = [] \<longleftrightarrow> zs = [])"
proof -
  have s: "set xs' = set xs" using assms(1) by (rule mset_eq_setD)
  have v: "list_all (valid_index (length y)) xs"
    using assms(2) by (simp add: select_label_filter split: if_splits)
  then have v': "list_all (valid_index (length y)) xs'"
    using s by (simp add: list_all_iff)
  have zs: "zs = filter (\<lambda>i. np_get y i = l) xs"
    using assms(2) v by (simp add: select_label_filter)
  have "(filter (\<lambda>i. np_get y i = l) xs' = []) \<longleftrightarrow> (filter (\<lambda>i. np_get y i = l) xs = [])"
    using s by (simp add: filter_empty_conv)
  then show ?thesis
    using v' zs by (simp add: select_label_filter)
qed

section \<open>The claims\<close>

subsection \<open>C1: the length of the index sequence\<close>

text \<open>
  Claim C1. Take a call that reaches the triple path: the key \<open>query_src\<close> is there, both
  candidate pools are non-empty, no indexing raises and both groups of zeros are non-empty
  after the partition by label (that is \<open>triple_groups\<close> gives the three groups). Let the
  sizing step return three counts, none negative. Then the loops of the schedule end, the
  index sequence \<^verbatim>\<open>all_idx\<close> they build has length exactly
  \<open>n_mini_epoch * (n_one_epoch + n_zero_rand_epoch + n_zero_max_epoch)\<close>, and what the call
  returns, when the update of the epochs and the final indexing do not raise, is
  \<^verbatim>\<open>(X[all_idx], y[all_idx])\<close> for this sequence.
\<close>

theorem triple_balance_index_length:
  assumes "permutes_all sh"
    and "triple_groups sh w y train_idx query_kwargs shuffle
           = Some (w1, one_idx, zero_rand_idx, zero_max_idx)"
    and "get_triple_dist (int (length one_idx)) (int (length zero_rand_idx))
           (int (length zero_max_idx)) (int (length (ints w1 y))) kw
           = Inr (n_one_epoch, n_zero_rand_epoch, n_zero_max_epoch)"
    and "0 \<le> n_one_epoch" "0 \<le> n_zero_rand_epoch" "0 \<le> n_zero_max_epoch"
  shows "\<exists>all_idx g.
           schedule_idx sh shuffle one_idx zero_rand_idx zero_max_idx
             (n_one_epoch, n_zero_rand_epoch, n_zero_max_epoch) (rng w1) = Some (all_idx, g)
           \<and> int (length all_idx)
               = mini_epochs one_idx zero_rand_idx zero_max_idx
                   (n_one_epoch, n_zero_rand_epoch, n_zero_max_epoch)
                 * (n_one_epoch + n_zero_rand_epoch + n_zero_max_epoch)
           \<and> triple_balance sh full_sample w X y train_idx fit_kwargs query_kwargs pref_epochs
               shuffle kw
               = (case set_epochs fit_kwargs pref_epochs
                         (n_one_epoch, n_zero_rand_epoch, n_zero_max_epoch)
                         (int (length one_idx)) (int (length zero_rand_idx))
                         (int (length zero_max_idx))
                         (mini_epochs one_idx zero_rand_idx zero_max_idx
                            (n_one_epoch, n_zero_rand_epoch, n_zero_max_epoch)) of
                    Inl e \<Rightarrow> Some (w1\<lparr>rng := g\<rparr>, fit_kwargs, Inl e)
                  | Inr fit_kwargs' \<Rightarrow>
                      Some (w1\<lparr>rng := g\<rparr>, fit_kwargs',
                            (case np_take (rows w1 X) all_idx of
                               Inl e \<Rightarrow> Inl e
                             | Inr Xs \<Rightarrow>
                                 (case np_take (ints w1 y) all_idx of
                                    Inl e \<Rightarrow> Inl e
                                  | Inr ys \<Rightarrow> Inr (Xs, ys)))))"
proof -
  let ?counts = "(n_one_epoch, n_zero_rand_epoch, n_zero_max_epoch)"
  have ne: "zero_rand_idx \<noteq> []" "zero_max_idx \<noteq> []"
    using triple_groups_frame [OF assms(2)] by simp_all
  have a: "n_one_epoch = int (length one_idx)"
    using assms(3) get_triple_dist_fst by blast
  have "\<exists>all_idx g.
          schedule_idx sh shuffle one_idx zero_rand_idx zero_max_idx
            (int (length one_idx), n_zero_rand_epoch, n_zero_max_epoch) (rng w1) = Some (all_idx, g)
          \<and> int (length all_idx)
              = mini_epochs one_idx zero_rand_idx zero_max_idx
                  (int (length one_idx), n_zero_rand_epoch, n_zero_max_epoch)
                * (int (length one_idx) + n_zero_rand_epoch + n_zero_max_epoch)"
    by (rule schedule_idx_length [OF assms(1) ne assms(5,6)])
  then obtain all_idx g where s:
      "schedule_idx sh shuffle one_idx zero_rand_idx zero_max_idx ?counts (rng w1) = Some (all_idx, g)"
    and len: "int (length all_idx)
                = mini_epochs one_idx zero_rand_idx zero_max_idx ?counts
                  * (n_one_epoch + n_zero_rand_epoch + n_zero_max_epoch)"
    unfolding a by auto
  have tb: "triple_balance sh full_sample w X y train_idx fit_kwargs query_kwargs pref_epochs shuffle kw
              = triple_path sh w1 X y fit_kwargs pref_epochs shuffle kw one_idx zero_rand_idx zero_max_idx"
    by (rule triple_balance_triple_path [OF assms(2)])
  have "triple_path sh w1 X y fit_kwargs pref_epochs shuffle kw one_idx zero_rand_idx zero_max_idx
          = (case set_epochs fit_kwargs pref_epochs ?counts
                    (int (length one_idx)) (int (length zero_rand_idx)) (int (length zero_max_idx))
                    (mini_epochs one_idx zero_rand_idx zero_max_idx ?counts) of
               Inl e \<Rightarrow> Some (w1\<lparr>rng := g\<rparr>, fit_kwargs, Inl e)
             | Inr fit_kwargs' \<Rightarrow>
                 Some (w1\<lparr>rng := g\<rparr>, fit_kwargs',
                       (case np_take (rows w1 X) all_idx of
                          Inl e \<Rightarrow> Inl e
                        | Inr Xs \<Rightarrow>
                            (case np_take (ints w1 y) all_idx of
                               Inl e \<Rightarrow> Inl e
                             | Inr ys \<Rightarrow> Inr (Xs, ys)))))"
  proof (cases "set_epochs fit_kwargs pref_epochs ?counts
                    (int (length one_idx)) (int (length zero_rand_idx)) (int (length zero_max_idx))
                    (mini_epochs one_idx zero_rand_idx zero_max_idx ?counts)")
    case (Inl e)
    then show ?thesis using assms(3) s by (simp add: triple_path_def)
  next
    case (Inr fit_kwargs')
    then show ?thesis using triple_path_unfold [OF assms(3) s Inr] by simp
  qed
  then show ?thesis using s len tb by (intro exI [of _ all_idx] exI [of _ g]) simp
qed

text \<open>
  The theorem at \<open>world0\<close> with the reversing shuffle: two mini epochs of \<open>2 + 1 + 1\<close>
  indices.
\<close>

theorem triple_balance_index_length_witness:
  "permutes_all rev_shuffler
   \<and> triple_groups rev_shuffler world0 0 1 query_kwargs0 True
       = Some (world0_shuffled, [0, 1], [5, 4], [3, 2])
   \<and> get_triple_dist 2 2 2 6 kwargs0 = Inr (2, 1, 1)
   \<and> (\<exists>all_idx g.
         schedule_idx rev_shuffler True [0, 1] [5, 4] [3, 2] (2, 1, 1) () = Some (all_idx, g)
         \<and> int (length all_idx) = 2 * (2 + 1 + 1)
         \<and> triple_balance rev_shuffler sample_all world0 0 0 1 fit_kwargs0 query_kwargs0 7 True kwargs0
             = Some (world0_shuffled, fit_kwargs0(''epochs'' \<mapsto> IntV 4),
                     Inr (map (np_get [10, 11, 12, 13, 14, 15]) all_idx,
                          map (np_get [1, 1, 0, 0, 0, 0]) all_idx)))"
proof -
  have d: "get_triple_dist (int (length [0, 1 :: int])) (int (length [5, 4 :: int]))
             (int (length [3, 2 :: int])) (int (length (ints world0_shuffled 0))) kwargs0
           = Inr (2, 1, 1)"
    using get_triple_dist_world0 by (simp add: world0_shuffled_def world0_def)
  obtain all_idx g where
      s: "schedule_idx rev_shuffler True [0, 1] [5, 4] [3, 2] (2, 1, 1) (rng world0_shuffled)
            = Some (all_idx, g)"
      and len: "int (length all_idx) = mini_epochs [0, 1] [5, 4] [3, 2] (2, 1, 1) * (2 + 1 + 1)"
      and tb: "triple_balance rev_shuffler sample_all world0 0 0 1 fit_kwargs0 query_kwargs0 7 True kwargs0
             = (case set_epochs fit_kwargs0 7 (2, 1, 1) (int (length [0, 1 :: int]))
                       (int (length [5, 4 :: int])) (int (length [3, 2 :: int]))
                       (mini_epochs [0, 1] [5, 4] [3, 2] (2, 1, 1)) of
                  Inl e \<Rightarrow> Some (world0_shuffled\<lparr>rng := g\<rparr>, fit_kwargs0, Inl e)
                | Inr fit_kwargs' \<Rightarrow>
                    Some (world0_shuffled\<lparr>rng := g\<rparr>, fit_kwargs',
                          (case np_take (rows world0_shuffled 0) all_idx of
                             Inl e \<Rightarrow> Inl e
                           | Inr Xs \<Rightarrow>
                               (case np_take (ints world0_shuffled 0) all_idx of
                                  Inl e \<Rightarrow> Inl e
                                | Inr ys \<Rightarrow> Inr (Xs, ys)))))"
    using triple_balance_index_length [OF permutes_all_rev_shuffler triple_groups_world0_shuffled d,
        of sample_all 0 fit_kwargs0 7]
    by auto
  have m: "mini_epochs [0, 1] [5, 4] [3, 2] (2, 1, 1) = 2"
    by (simp add: mini_epochs_def n_mini_epoch_def)
  have all: "all_idx = [3, 5, 1, 0, 2, 4, 1, 0]"
    using s schedule_idx_world0_shuffled by simp
  have se: "set_epochs fit_kwargs0 7 (2, 1, 1) 2 2 2 2 = Inr (fit_kwargs0(''epochs'' \<mapsto> IntV 4))"
    by (simp add: set_epochs_def effective_fraction_def py_div_def py_pow_def fit_kwargs0_def)
  have "triple_balance rev_shuffler sample_all world0 0 0 1 fit_kwargs0 query_kwargs0 7 True kwargs0
          = Some (world0_shuffled, fit_kwargs0(''epochs'' \<mapsto> IntV 4),
                  Inr (map (np_get [10, 11, 12, 13, 14, 15]) all_idx,
                       map (np_get [1, 1, 0, 0, 0, 0]) all_idx))"
    unfolding tb m using se
    by (simp add: all world0_shuffled_def world0_def np_take_def valid_index_def)
  then show ?thesis
    using permutes_all_rev_shuffler triple_groups_world0_shuffled get_triple_dist_world0 s len m
    by (auto simp: world0_shuffled_def world0_def)
qed

subsection \<open>C2: the fallback\<close>

text \<open>
  Claim C2 says that the call returns the fallback's value, and raises nothing, whenever
  one of the two pools is empty before or after the restriction to the items of label 0.
  This fails when an entry of the provenance map other than \<open>max\<close> is an empty Python
  list: \<^verbatim>\<open>np.append\<close> then makes \<^verbatim>\<open>rand_idx\<close> a float array, and \<^verbatim>\<open>y[rand_idx]\<close> raises
  \<^verbatim>\<open>IndexError\<close>. At \<open>world_empty_entry\<close> the map is
  \<^verbatim>\<open>{'max': [0, 1], 'random': [4, 5], 'extra': []}\<close>: both pools are non-empty, the \<open>max\<close>
  pool has no item of label 0, and the call raises.
\<close>

theorem triple_balance_empty_list_counterexample:
  "query_kwargs_empty_entry ''query_src'' = Some [(''max'', 2), (''random'', 3), (''extra'', 4)]
   \<and> max_pool [(''max'', 2), (''random'', 3), (''extra'', 4)] world_empty_entry = [0, 1]
   \<and> rand_pool [(''max'', 2), (''random'', 3), (''extra'', 4)] world_empty_entry = [4, 5]
   \<and> filter (\<lambda>i. np_get (ints world_empty_entry 0) i = 0) [0, 1] = []
   \<and> triple_balance rev_shuffler sample_all world_empty_entry 0 0 1 fit_kwargs0
         query_kwargs_empty_entry 7 False kwargs0
       = Some (world_empty_entry_pools, fit_kwargs0, Inl IndexError)"
proof -
  have cp: "collect_pools rev_shuffler False [(''max'', 2), (''random'', 3), (''extra'', 4)]
              world_empty_entry = ((8, 5), world_empty_entry_pools)"
    by (simp add: pool_defs world_empty_entry_def world_max_ones_def world0_def
          world_empty_entry_pools_def fun_eq_iff)
  have tb: "triple_balance rev_shuffler sample_all world_empty_entry 0 0 1 fit_kwargs0
              query_kwargs_empty_entry 7 False kwargs0
            = Some (world_empty_entry_pools, fit_kwargs0, Inl IndexError)"
    by (simp add: triple_balance_def query_kwargs_empty_entry_def cp)
       (simp add: world_empty_entry_pools_def world_empty_entry_def world_max_ones_def world0_def
          label_defs)
  show ?thesis
    using tb
    by (simp add: query_kwargs_empty_entry_def max_pool_def rand_pool_def world_empty_entry_def
          world_max_ones_def world0_def np_get_def)
qed

text \<open>
  Claim C2 as amended. Take a call whose \<^verbatim>\<open>query_kwargs\<close> has the key \<open>query_src\<close> and
  whose arrays exist in the store. If the \<open>max\<close> entry of the provenance map is missing or
  empty, or the union of the other entries is empty (so in particular if the map is empty),
  or if the three partitions by label raise no \<^verbatim>\<open>IndexError\<close> (every index is valid for
  \<^verbatim>\<open>y\<close>, and \<^verbatim>\<open>train_idx\<close> and the union of the other entries are of integer type) and the
  zeros of the \<open>max\<close> entry or the zeros of the other entries are empty, then the call
  raises nothing, leaves the fit configuration as it is and returns exactly
  \<^verbatim>\<open>full_sample(X, y, train_idx)\<close>.
\<close>

theorem triple_balance_fallback:
  assumes sh: "permutes_all sh"
    and qk: "query_kwargs ''query_src'' = Some qs"
    and al: "allocated w y train_idx qs"
    and deg: "max_pool qs w = [] \<or> rand_pool qs w = []
              \<or> (select_label (ints w y) 1 (dtypes w train_idx) (ints w train_idx) = Inr one_idx
                 \<and> select_label (ints w y) 0 IntType (max_pool qs w) = Inr zero_max_idx
                 \<and> select_label (ints w y) 0 (rand_dtype qs w) (rand_pool qs w) = Inr zero_rand_idx
                 \<and> (zero_max_idx = [] \<or> zero_rand_idx = []))"
  shows "\<exists>w'. triple_balance sh full_sample w X y train_idx fit_kwargs query_kwargs pref_epochs
                 shuffle kw
               = Some (w', fit_kwargs,
                       Inr (full_sample (rows w X) (ints w y) (ints w train_idx)))"
proof -
  obtain rand_idx max_idx w1 where cp: "collect_pools sh shuffle qs w = ((rand_idx, max_idx), w1)"
    by (metis surj_pair)
  have f: "frame w w1" using cp by (rule collect_pools_frame)
  have alq: "list_all (\<lambda>(qtype, a). a < nxt w) qs" using al by (simp add: allocated_def)
  have mr: "mset (ints w1 rand_idx) = mset (rand_pool qs w)"
    and mm: "mset (ints w1 max_idx) = mset (max_pool qs w)"
    and kr: "dtypes w1 rand_idx = rand_dtype qs w"
    and km: "dtypes w1 max_idx = IntType"
    using collect_pools_content [OF cp alq sh] by simp_all
  have y: "ints w1 y = ints w y" and t: "ints w1 train_idx = ints w train_idx"
    and kt: "dtypes w1 train_idx = dtypes w train_idx"
    and X: "rows w1 X = rows w X"
    using f al by (simp_all add: frame_def allocated_def)
  let ?fallback = "Some (w1, fit_kwargs, Inr (full_sample (rows w X) (ints w y) (ints w train_idx)))"
  have "triple_balance sh full_sample w X y train_idx fit_kwargs query_kwargs pref_epochs shuffle kw
          = ?fallback"
  proof (cases "ints w1 rand_idx = [] \<or> ints w1 max_idx = []")
    case True
    then show ?thesis using qk cp y t X by (auto simp: triple_balance_def)
  next
    case pools: False
    then have "rand_pool qs w \<noteq> []" "max_pool qs w \<noteq> []"
      using mr mm by auto
    then have one: "select_label (ints w y) 1 (dtypes w train_idx) (ints w train_idx) = Inr one_idx"
      and zm: "select_label (ints w y) 0 IntType (max_pool qs w) = Inr zero_max_idx"
      and zr0: "select_label (ints w y) 0 (rand_dtype qs w) (rand_pool qs w) = Inr zero_rand_idx"
      and e: "zero_max_idx = [] \<or> zero_rand_idx = []"
      using deg by simp_all
    have ri: "rand_dtype qs w = IntType" using zr0 by (rule select_label_int)
    have zr: "select_label (ints w y) 0 IntType (rand_pool qs w) = Inr zero_rand_idx"
      using zr0 ri by simp
    obtain zm' where zm': "select_label (ints w y) 0 IntType (ints w1 max_idx) = Inr zm'"
        "zm' = [] \<longleftrightarrow> zero_max_idx = []"
      using select_label_perm [OF mm zm] by blast
    obtain zr' where zr': "select_label (ints w y) 0 IntType (ints w1 rand_idx) = Inr zr'"
        "zr' = [] \<longleftrightarrow> zero_rand_idx = []"
      using select_label_perm [OF mr zr] by blast
    have "zr' = [] \<or> zm' = []" using e zm'(2) zr'(2) by blast
    then show ?thesis
      using qk cp pools one zm'(1) zr'(1) y t kt X kr km ri by (auto simp: triple_balance_def)
  qed
  then show ?thesis by (rule exI)
qed

text \<open>
  The theorem at \<open>world_max_ones\<close>, where the \<open>max\<close> entry has no item of label 0, and at
  \<open>world0\<close> with an empty provenance map.
\<close>

theorem triple_balance_fallback_witness:
  "permutes_all rev_shuffler
   \<and> query_kwargs0 ''query_src'' = Some [(''max'', 2), (''random'', 3)]
   \<and> allocated world_max_ones 0 1 [(''max'', 2), (''random'', 3)]
   \<and> max_pool [(''max'', 2), (''random'', 3)] world_max_ones = [0, 1]
   \<and> rand_pool [(''max'', 2), (''random'', 3)] world_max_ones = [4, 5]
   \<and> rand_dtype [(''max'', 2), (''random'', 3)] world_max_ones = IntType
   \<and> select_label (ints world_max_ones 0) 1 (dtypes world_max_ones 1) (ints world_max_ones 1)
       = Inr [0, 1]
   \<and> select_label (ints world_max_ones 0) 0 IntType [0, 1] = Inr []
   \<and> select_label (ints world_max_ones 0) 0 IntType [4, 5] = Inr [4, 5]
   \<and> (\<exists>w'. triple_balance rev_shuffler sample_all world_max_ones 0 0 1 fit_kwargs0 query_kwargs0 7
               True kwargs0
             = Some (w', fit_kwargs0,
                     Inr (sample_all [10, 11, 12, 13, 14, 15] [1, 1, 0, 0, 0, 0] [0, 1, 2, 3, 4, 5])))
   \<and> [''query_src'' \<mapsto> ([]::query_src)] ''query_src'' = Some []
   \<and> allocated world0 0 1 []
   \<and> max_pool [] world0 = []
   \<and> (\<exists>w'. triple_balance rev_shuffler sample_all world0 0 0 1 fit_kwargs0 [''query_src'' \<mapsto> []] 7
               True kwargs0
             = Some (w', fit_kwargs0,
                     Inr (sample_all [10, 11, 12, 13, 14, 15] [1, 1, 0, 0, 0, 0] [0, 1, 2, 3, 4, 5])))"
proof -
  let ?qs = "[(''max'', 2), (''random'', 3)] :: query_src"
  have q: "query_kwargs0 ''query_src'' = Some ?qs" by (simp add: query_kwargs0_def)
  have a: "allocated world_max_ones 0 1 ?qs"
    by (simp add: allocated_def world_max_ones_def world0_def)
  have mp: "max_pool ?qs world_max_ones = [0, 1]"
    by (simp add: max_pool_def world_max_ones_def world0_def)
  have rp: "rand_pool ?qs world_max_ones = [4, 5]"
    by (simp add: rand_pool_def world_max_ones_def world0_def)
  have rk: "rand_dtype ?qs world_max_ones = IntType"
    by (simp add: rand_dtype_def world_max_ones_def world0_def)
  have s1: "select_label (ints world_max_ones 0) 1 (dtypes world_max_ones 1) (ints world_max_ones 1)
              = Inr [0, 1]"
    and s2: "select_label (ints world_max_ones 0) 0 IntType [0, 1] = Inr []"
    and s3: "select_label (ints world_max_ones 0) 0 IntType [4, 5] = Inr [4, 5]"
    by (simp_all add: world_max_ones_def world0_def label_defs)
  have d: "max_pool ?qs world_max_ones = [] \<or> rand_pool ?qs world_max_ones = []
           \<or> (select_label (ints world_max_ones 0) 1 (dtypes world_max_ones 1) (ints world_max_ones 1)
                = Inr [0, 1]
              \<and> select_label (ints world_max_ones 0) 0 IntType (max_pool ?qs world_max_ones) = Inr []
              \<and> select_label (ints world_max_ones 0) 0 (rand_dtype ?qs world_max_ones)
                    (rand_pool ?qs world_max_ones) = Inr [4, 5]
              \<and> ([] = ([]::int list) \<or> [4, 5] = ([]::int list)))"
    using s1 s2 s3 by (simp add: mp rp rk)
  have r1: "\<exists>w'. triple_balance rev_shuffler sample_all world_max_ones 0 0 1 fit_kwargs0 query_kwargs0 7
               True kwargs0
             = Some (w', fit_kwargs0,
                     Inr (sample_all [10, 11, 12, 13, 14, 15] [1, 1, 0, 0, 0, 0] [0, 1, 2, 3, 4, 5]))"
    using triple_balance_fallback [where sh = rev_shuffler and query_kwargs = query_kwargs0
        and qs = ?qs and w = world_max_ones and y = 0 and train_idx = 1 and one_idx = "[0, 1]"
        and zero_max_idx = "[]" and zero_rand_idx = "[4, 5]" and full_sample = sample_all
        and X = 0 and fit_kwargs = fit_kwargs0 and pref_epochs = 7 and shuffle = True
        and kw = kwargs0, OF permutes_all_rev_shuffler q a d]
    by (simp add: world_max_ones_def world0_def)
  have q0: "[''query_src'' \<mapsto> ([]::query_src)] ''query_src'' = Some []" by simp
  have a0: "allocated world0 0 1 []" by (simp add: allocated_def world0_def)
  have m0: "max_pool [] world0 = []" by (simp add: max_pool_def)
  have d0: "max_pool [] world0 = [] \<or> rand_pool [] world0 = []
           \<or> (select_label (ints world0 0) 1 (dtypes world0 1) (ints world0 1) = Inr []
              \<and> select_label (ints world0 0) 0 IntType (max_pool [] world0) = Inr []
              \<and> select_label (ints world0 0) 0 (rand_dtype [] world0) (rand_pool [] world0) = Inr []
              \<and> ([] = ([]::int list) \<or> [] = ([]::int list)))"
    using m0 by simp
  have r0: "\<exists>w'. triple_balance rev_shuffler sample_all world0 0 0 1 fit_kwargs0 [''query_src'' \<mapsto> []] 7
               True kwargs0
             = Some (w', fit_kwargs0,
                     Inr (sample_all [10, 11, 12, 13, 14, 15] [1, 1, 0, 0, 0, 0] [0, 1, 2, 3, 4, 5]))"
    using triple_balance_fallback [where sh = rev_shuffler
        and query_kwargs = "[''query_src'' \<mapsto> []]" and qs = "[]" and w = world0 and y = 0
        and train_idx = 1 and one_idx = "[]" and zero_max_idx = "[]" and zero_rand_idx = "[]"
        and full_sample = sample_all and X = 0 and fit_kwargs = fit_kwargs0 and pref_epochs = 7
        and shuffle = True and kw = kwargs0, OF permutes_all_rev_shuffler q0 a0 d0]
    by (simp add: world0_def)
  show ?thesis
    using permutes_all_rev_shuffler q a mp rp rk s1 s2 s3 r1 q0 a0 m0 r0
    by simp
qed

subsection \<open>C3: the epochs written to the fit configuration\<close>

text \<open>
  Claim C3 says that every call on the triple path whose fit configuration has the key
  \<open>epochs\<close> overwrites it with \<open>ceil (pref_epochs / n_mini_epoch)\<close>. With no training index
  of label 1 this fails: the three counts and \<open>n_mini_epoch\<close> are 0, the division
  \<^verbatim>\<open>n_one_epoch/n_one\<close> raises, and the key keeps its value. The pool \<open>world_no_ones\<close>
  is such an input.
\<close>

theorem triple_balance_no_ones_counterexample:
  "triple_groups rev_shuffler world_no_ones 0 1 query_kwargs0 False
     = Some (world_no_ones_pools, [], [4, 5], [2, 3])
   \<and> fit_kwargs0 ''epochs'' = Some (IntV 5)
   \<and> triple_balance rev_shuffler sample_all world_no_ones 0 0 1 fit_kwargs0 query_kwargs0 7 False
       kwargs0
       = Some (world_no_ones_pools, fit_kwargs0, Inl ZeroDivisionError)"
proof -
  have y: "ints world_no_ones_pools 0 = [0, 0, 0, 0, 0, 0]"
    by (simp add: world_no_ones_pools_def world_no_ones_def world0_def)
  have s: "schedule_idx rev_shuffler False [] [4, 5] [2, 3] (0, 0, 0) () = Some ([], ())"
    by (simp add: schedule_defs)
  have e: "set_epochs fit_kwargs0 7 (0, 0, 0) 0 2 2 (mini_epochs [] [4, 5] [2, 3] (0, 0, 0))
             = Inl ZeroDivisionError"
    by (simp add: set_epochs_def effective_fraction_def py_div_def fit_kwargs0_def)
  have tp: "triple_path rev_shuffler world_no_ones_pools 0 0 fit_kwargs0 7 False kwargs0 [] [4, 5] [2, 3]
          = Some (world_no_ones_pools, fit_kwargs0, Inl ZeroDivisionError)"
    using get_triple_dist_no_ones0 s e by (simp add: triple_path_def y)
  have tb: "triple_balance rev_shuffler sample_all world_no_ones 0 0 1 fit_kwargs0 query_kwargs0 7
              False kwargs0
            = triple_path rev_shuffler world_no_ones_pools 0 0 fit_kwargs0 7 False kwargs0 []
                [4, 5] [2, 3]"
    by (rule triple_balance_triple_path [OF triple_groups_no_ones])
  have f: "fit_kwargs0 ''epochs'' = Some (IntV 5)"
    by (simp add: fit_kwargs0_def)
  show ?thesis
    using triple_groups_no_ones f tb tp by simp
qed

text \<open>
  Claim C3 as amended. For every call on the triple path with at least one training index
  of label 1, whose sizing step returns and whose fit configuration has the key \<open>epochs\<close>,
  the fit configuration after the call is the one before with \<open>epochs\<close> set to exactly
  \<open>ceil (pref_epochs / n_mini_epoch)\<close>, where \<open>n_mini_epoch \<ge> 1\<close>; this holds also when the
  final indexing raises. The effective fraction is computed and does not occur in the
  value written: the constant 1 replaces it.
\<close>

theorem triple_balance_sets_epochs:
  assumes "triple_groups sh w y train_idx query_kwargs shuffle
             = Some (w1, one_idx, zero_rand_idx, zero_max_idx)"
    and "one_idx \<noteq> []" and "''epochs'' \<in> dom fit_kwargs"
    and "get_triple_dist (int (length one_idx)) (int (length zero_rand_idx))
           (int (length zero_max_idx)) (int (length (ints w1 y))) kw = Inr counts"
  shows "\<exists>g r.
           triple_balance sh full_sample w X y train_idx fit_kwargs query_kwargs pref_epochs
             shuffle kw
             = Some (w1\<lparr>rng := g\<rparr>,
                     fit_kwargs(''epochs'' \<mapsto>
                       IntV \<lceil>real_of_int pref_epochs
                              / real_of_int (mini_epochs one_idx zero_rand_idx zero_max_idx counts)\<rceil>),
                     r)
           \<and> 1 \<le> mini_epochs one_idx zero_rand_idx zero_max_idx counts"
proof -
  have ne: "zero_rand_idx \<noteq> []" "zero_max_idx \<noteq> []"
    using triple_groups_frame [OF assms(1)] by simp_all
  show ?thesis
    unfolding triple_balance_triple_path [OF assms(1)]
    by (rule triple_path_sets_epochs [OF ne assms(2-4)])
qed

text \<open>The theorem at \<open>world0\<close>: \<open>pref_epochs = 7\<close> and two mini epochs give 4 epochs.\<close>

theorem triple_balance_sets_epochs_witness:
  "triple_groups rev_shuffler world0 0 1 query_kwargs0 False
     = Some (world0_pools, [0, 1], [4, 5], [2, 3])
   \<and> [0, 1] \<noteq> ([]::int list) \<and> ''epochs'' \<in> dom fit_kwargs0
   \<and> get_triple_dist 2 2 2 6 kwargs0 = Inr (2, 1, 1)
   \<and> mini_epochs [0, 1] [4, 5] [2, 3] (2, 1, 1) = 2
   \<and> (\<exists>r. triple_balance rev_shuffler sample_all world0 0 0 1 fit_kwargs0 query_kwargs0 7 False
              kwargs0
            = Some (world0_pools, fit_kwargs0(''epochs'' \<mapsto> IntV 4), r))"
proof -
  have d: "get_triple_dist (int (length [0, 1 :: int])) (int (length [4, 5 :: int]))
             (int (length [2, 3 :: int])) (int (length (ints world0_pools 0))) kwargs0
           = Inr (2, 1, 1)"
    using get_triple_dist_world0 by (simp add: world0_pools_def world0_def)
  have ep: "''epochs'' \<in> dom fit_kwargs0" by (simp add: fit_kwargs0_def)
  have c: "\<lceil>real_of_int 7 / real_of_int 2\<rceil> = (4::int)"
    by (simp add: ceiling_eq_iff)
  obtain g r where
    "triple_balance rev_shuffler sample_all world0 0 0 1 fit_kwargs0 query_kwargs0 7 False kwargs0
       = Some (world0_pools\<lparr>rng := g\<rparr>,
               fit_kwargs0(''epochs'' \<mapsto>
                 IntV \<lceil>real_of_int 7 / real_of_int (mini_epochs [0, 1] [4, 5] [2, 3] (2, 1, 1))\<rceil>),
               r)"
    using triple_balance_sets_epochs [OF triple_groups_world0 _ ep d, of sample_all 0 7]
    by auto
  then have "\<exists>r. triple_balance rev_shuffler sample_all world0 0 0 1 fit_kwargs0 query_kwargs0 7 False
                  kwargs0
                = Some (world0_pools, fit_kwargs0(''epochs'' \<mapsto> IntV 4), r)"
    using c by (simp add: mini_epochs_world0)
  then show ?thesis
    using triple_groups_world0 ep get_triple_dist_world0 mini_epochs_world0 by simp
qed

subsection \<open>C4: the shuffle and the provenance map of the caller\<close>

text \<open>
  Claim C4 says that with \<^verbatim>\<open>shuffle\<close> true the call permutes the two pools of the caller
  in place, so that the provenance map holds the new order afterwards. The code shuffles
  \<^verbatim>\<open>rand_idx\<close> and \<^verbatim>\<open>max_idx\<close>, which \<^verbatim>\<open>np.array\<close> and \<^verbatim>\<open>np.append\<close> have built as new
  arrays, and never stores them in the map. On \<open>world0\<close> with the reversing shuffle the
  call returns; the new arrays at addresses 4 and 6 are reversed, and the two arrays of
  the provenance map, at addresses 2 and 3, are in the order they had.
\<close>

theorem triple_balance_shuffles_copies:
  "triple_balance rev_shuffler sample_all world0 0 0 1 fit_kwargs0 query_kwargs0 7 True kwargs0
     = Some (world0_shuffled, fit_kwargs0(''epochs'' \<mapsto> IntV 4),
             Inr ([13, 15, 11, 10, 12, 14, 11, 10], [0, 0, 1, 1, 0, 0, 1, 1]))
   \<and> query_kwargs0 ''query_src'' = Some [(''max'', 2), (''random'', 3)]
   \<and> ints world0 2 = [2, 3] \<and> ints world0 3 = [4, 5]
   \<and> ints world0_shuffled 2 = [2, 3] \<and> ints world0_shuffled 3 = [4, 5]
   \<and> ints world0_shuffled 4 = [3, 2] \<and> ints world0_shuffled 6 = [5, 4]"
proof -
  have y: "ints world0_shuffled 0 = [1, 1, 0, 0, 0, 0]"
    and X: "rows world0_shuffled 0 = [10, 11, 12, 13, 14, 15]"
    by (simp_all add: world0_shuffled_def world0_def)
  have m: "mini_epochs [0, 1] [5, 4] [3, 2] (2, 1, 1) = 2"
    by (simp add: mini_epochs_def n_mini_epoch_def)
  have se: "set_epochs fit_kwargs0 7 (2, 1, 1) 2 2 2 2 = Inr (fit_kwargs0(''epochs'' \<mapsto> IntV 4))"
    by (simp add: set_epochs_def effective_fraction_def py_div_def py_pow_def fit_kwargs0_def)
  have tp: "triple_path rev_shuffler world0_shuffled 0 0 fit_kwargs0 7 True kwargs0 [0, 1] [5, 4] [3, 2]
          = Some (world0_shuffled, fit_kwargs0(''epochs'' \<mapsto> IntV 4),
                  Inr ([13, 15, 11, 10, 12, 14, 11, 10], [0, 0, 1, 1, 0, 0, 1, 1]))"
    using get_triple_dist_world0 schedule_idx_world0_shuffled se
    by (simp add: triple_path_def y X m np_take_def valid_index_def np_get_def)
  have tb: "triple_balance rev_shuffler sample_all world0 0 0 1 fit_kwargs0 query_kwargs0 7 True kwargs0
          = triple_path rev_shuffler world0_shuffled 0 0 fit_kwargs0 7 True kwargs0 [0, 1] [5, 4] [3, 2]"
    by (rule triple_balance_triple_path [OF triple_groups_world0_shuffled])
  have c: "ints world0 2 = [2, 3]" "ints world0 3 = [4, 5]"
      "ints world0_shuffled 2 = [2, 3]" "ints world0_shuffled 3 = [4, 5]"
      "ints world0_shuffled 4 = [3, 2]" "ints world0_shuffled 6 = [5, 4]"
    by (simp_all add: world0_shuffled_def world0_def)
  have q: "query_kwargs0 ''query_src'' = Some [(''max'', 2), (''random'', 3)]"
    by (simp add: query_kwargs0_def)
  show ?thesis
    unfolding tb tp using c q by (intro conjI) simp_all
qed

subsection \<open>C6: the weight at the two ends\<close>

text \<open>
  Claim C6 says that for every \<open>b > 0\<close> and \<open>alpha \<ge> 0\<close> the weight is exactly \<open>b\<close> at
  \<open>frac = 0\<close> and exactly 1 at \<open>frac = 1\<close>. With \<open>n_one = n_zero_max = 0\<close>,
  \<open>n_zero_rand = 0\<close>, \<open>n_samples = 1\<close>, \<open>b = 10\<close> and \<open>alpha = 0\<close> the fraction is 0 and the
  weight is not 10: \<^verbatim>\<open>0.0 ** 0\<close> is 1, so the code computes \<^verbatim>\<open>10 * exp(-log(10))\<close>.
\<close>

theorem rand_max_weight_alpha_zero_counterexample:
  "rand_max_weight 0 0 0 1 10 0 \<noteq> Inr 10"
  by (simp add: rand_max_weight_def py_div_def py_log_def py_pow_def exp_minus)

text \<open>
  Claim C6 as amended. For every \<open>b > 0\<close> and every \<open>alpha > 0\<close> the weight at
  \<open>frac = 0\<close> (that is \<open>n_one = n_zero_max = 0\<close>) is exactly \<open>b\<close>. At \<open>frac = 1\<close> (that is
  \<open>n_samples - n_zero_rand = n_one + n_zero_max\<close>, not zero) the weight does not depend on
  the exponent: it is what \<^verbatim>\<open>b * exp(-log(b))\<close> evaluates to, which is 1 up to the rounding
  of \<^verbatim>\<open>log\<close>, \<^verbatim>\<open>exp\<close> and the product.
\<close>

theorem rand_max_weight_boundaries:
  assumes "0 < b" "0 < alpha" "n_samples \<noteq> n_zero_rand" "n_one + n_zero_max \<noteq> 0"
  shows "rand_max_weight 0 n_zero_rand 0 n_samples b alpha = Inr b
       \<and> rand_max_weight n_one n_zero_rand n_zero_max (n_one + n_zero_max + n_zero_rand) b alpha1
           = rand_max_weight n_one n_zero_rand n_zero_max (n_one + n_zero_max + n_zero_rand) b alpha2"
  using assms
  by (auto simp: rand_max_weight_def py_div_def py_log_def py_pow_def exp_minus)

text \<open>The theorem at \<open>b = 10\<close>, \<open>alpha = 1\<close>: the weight 10 of the specification's example.\<close>

theorem rand_max_weight_boundaries_witness:
  "(0::real) < 10 \<and> (0::real) < 1 \<and> (1::int) \<noteq> 0 \<and> (1::int) + 0 \<noteq> 0
   \<and> rand_max_weight 0 0 0 1 10 1 = Inr 10
   \<and> rand_max_weight 1 0 0 (1 + 0 + 0) 10 2 = rand_max_weight 1 0 0 (1 + 0 + 0) 10 3"
  using rand_max_weight_boundaries [of 10 1 1 0 1 0 2 3]
  by simp

subsection \<open>C8: the two divisions that are not guarded\<close>

text \<open>
  Claim C8. The weight function raises \<^verbatim>\<open>ZeroDivisionError\<close> whenever
  \<open>n_samples = n_zero_rand\<close>, and the ratio function raises it whenever \<open>n_zero = 0\<close>,
  whatever the other arguments are. Nothing catches either: the sizing step raises in
  both cases, and a call that reaches the triple path with as many random zeros as the
  pool has items raises; it does not return the fallback's value, and it leaves the fit
  configuration as it was.
\<close>

theorem degenerate_counts_raise:
  assumes "triple_groups sh w y train_idx query_kwargs shuffle
             = Some (w1, one_idx, zero_rand_idx, zero_max_idx)"
    and "length (ints w1 y) = length zero_rand_idx"
  shows "rand_max_weight n_one n n_zero_max n b alpha = Inl ZeroDivisionError
       \<and> one_zero_ratio n_one 0 beta delta = Inl ZeroDivisionError
       \<and> (\<exists>e. get_triple_dist n_one n n_zero_max n kw = Inl e)
       \<and> get_triple_dist n_one 0 0 n_samples kw = Inl ZeroDivisionError
       \<and> (\<exists>e. triple_balance sh full_sample w X y train_idx fit_kwargs query_kwargs pref_epochs
                  shuffle kw = Some (w1, fit_kwargs, Inl e))"
proof -
  have a: "rand_max_weight n_one n n_zero_max n b alpha = Inl ZeroDivisionError"
    by (simp add: rand_max_weight_def py_div_def)
  have b: "one_zero_ratio n_one 0 beta delta = Inl ZeroDivisionError"
    by (simp add: one_zero_ratio_def py_div_def)
  obtain e where e: "get_triple_dist (int (length one_idx)) (int (length zero_rand_idx))
                       (int (length zero_max_idx)) (int (length (ints w1 y))) kw = Inl e"
    using get_triple_dist_all_rand [of "int (length one_idx)" "int (length zero_rand_idx)"
        "int (length zero_max_idx)" kw] assms(2) by auto
  have "triple_path sh w1 X y fit_kwargs pref_epochs shuffle kw one_idx zero_rand_idx zero_max_idx
          = Some (w1, fit_kwargs, Inl e)"
    using e by (simp add: triple_path_def)
  then have c: "\<exists>e. triple_balance sh full_sample w X y train_idx fit_kwargs query_kwargs pref_epochs
                  shuffle kw = Some (w1, fit_kwargs, Inl e)"
    unfolding triple_balance_triple_path [OF assms(1)] by (rule exI)
  show ?thesis
    using a b c get_triple_dist_all_rand [of n_one n n_zero_max kw]
      get_triple_dist_no_zeros [of n_one n_samples kw]
    by (intro conjI)
qed

text \<open>
  The theorem at \<open>world_many_rand\<close>, where the provenance map lists six random zeros and
  the pool has six items.
\<close>

theorem degenerate_counts_raise_witness:
  "triple_groups rev_shuffler world_many_rand 0 1 query_kwargs0 False
     = Some (world_many_rand_pools, [0, 1], [2, 3, 4, 5, 4, 5], [2, 3])
   \<and> length (ints world_many_rand_pools 0) = length [2, 3, 4, 5, 4, 5 :: int]
   \<and> rand_max_weight 2 6 2 6 1 1 = Inl ZeroDivisionError
   \<and> one_zero_ratio 2 0 0 (1 / 2) = Inl ZeroDivisionError
   \<and> (\<exists>e. get_triple_dist 2 6 2 6 kwargs0 = Inl e)
   \<and> get_triple_dist 2 0 0 6 kwargs0 = Inl ZeroDivisionError
   \<and> (\<exists>e. triple_balance rev_shuffler sample_all world_many_rand 0 0 1 fit_kwargs0 query_kwargs0 7
              False kwargs0 = Some (world_many_rand_pools, fit_kwargs0, Inl e))"
proof -
  have l: "length (ints world_many_rand_pools 0) = length [2, 3, 4, 5, 4, 5 :: int]"
    by (simp add: world_many_rand_pools_def world_many_rand_def world0_def)
  show ?thesis
    using triple_groups_many_rand l
      degenerate_counts_raise [OF triple_groups_many_rand l,
        of 2 6 2 1 1 0 "1 / 2" kwargs0 6 sample_all 0 fit_kwargs0 7]
    by simp
qed

subsection \<open>C9: what a call leaves unchanged\<close>

text \<open>
  Claim C9. Every call ends (it returns or raises), and after it: the fit configuration
  is the one before, or the one before with the entry \<open>epochs\<close> rewritten to an integer,
  and the latter only when the key \<open>epochs\<close> was there before; so no other key is added,
  removed or changed. Every feature matrix and every integer array that existed before
  the call (\<^verbatim>\<open>X\<close>, \<^verbatim>\<open>y\<close>, \<^verbatim>\<open>train_idx\<close> and the values of the provenance map among them)
  has the content it had. This holds also for a call that raises.
\<close>

theorem triple_balance_frame:
  "\<exists>w' fit_kwargs' r.
     triple_balance sh full_sample w X y train_idx fit_kwargs query_kwargs pref_epochs shuffle kw
       = Some (w', fit_kwargs', r)
     \<and> (fit_kwargs' = fit_kwargs
        \<or> (\<exists>v. ''epochs'' \<in> dom fit_kwargs \<and> fit_kwargs' = fit_kwargs(''epochs'' \<mapsto> IntV v)))
     \<and> rows w' = rows w
     \<and> (\<forall>a<nxt w. ints w' a = ints w a)"
proof (cases "triple_groups sh w y train_idx query_kwargs shuffle")
  case None
  obtain w' r where
      "triple_balance sh full_sample w X y train_idx fit_kwargs query_kwargs pref_epochs shuffle kw
         = Some (w', fit_kwargs, r)" "frame w w'"
    using triple_balance_no_groups [OF None] by blast
  then show ?thesis
    by (intro exI [of _ w'] exI [of _ fit_kwargs] exI [of _ r]) (simp add: frame_def)
next
  case (Some grp)
  obtain w1 one_idx zero_rand_idx zero_max_idx where
      grp: "grp = (w1, one_idx, zero_rand_idx, zero_max_idx)"
    by (cases grp)
  have g: "triple_groups sh w y train_idx query_kwargs shuffle
             = Some (w1, one_idx, zero_rand_idx, zero_max_idx)"
    using Some grp by simp
  have f: "frame w w1" and ne: "zero_rand_idx \<noteq> []" "zero_max_idx \<noteq> []"
    using triple_groups_frame [OF g] by simp_all
  have "\<exists>gen fit_kwargs' r.
          triple_path sh w1 X y fit_kwargs pref_epochs shuffle kw one_idx zero_rand_idx zero_max_idx
            = Some (w1\<lparr>rng := gen\<rparr>, fit_kwargs', r)
          \<and> (fit_kwargs' = fit_kwargs
             \<or> (\<exists>v. ''epochs'' \<in> dom fit_kwargs \<and> fit_kwargs' = fit_kwargs(''epochs'' \<mapsto> IntV v)))"
    by (rule triple_path_returns [OF ne])
  then obtain gen fit_kwargs' r where
      tp: "triple_path sh w1 X y fit_kwargs pref_epochs shuffle kw one_idx zero_rand_idx zero_max_idx
             = Some (w1\<lparr>rng := gen\<rparr>, fit_kwargs', r)"
      and fk: "fit_kwargs' = fit_kwargs
               \<or> (\<exists>v. ''epochs'' \<in> dom fit_kwargs \<and> fit_kwargs' = fit_kwargs(''epochs'' \<mapsto> IntV v))"
    by (elim exE conjE)
  have "frame w (w1\<lparr>rng := gen\<rparr>)" using f by (rule frame_rng)
  then show ?thesis
    unfolding triple_balance_triple_path [OF g]
    using tp fk
    by (intro exI [of _ "w1\<lparr>rng := gen\<rparr>"] exI [of _ fit_kwargs'] exI [of _ r])
       (simp add: frame_def)
qed

text \<open>
  The theorem at \<open>world0\<close> with the reversing shuffle, read at the key \<open>verbose\<close> and at
  the four arrays of the caller.
\<close>

theorem triple_balance_frame_witness:
  "\<exists>w' fit_kwargs' r.
     triple_balance rev_shuffler sample_all world0 0 0 1 fit_kwargs0 query_kwargs0 7 True kwargs0
       = Some (w', fit_kwargs', r)
     \<and> fit_kwargs' ''verbose'' = fit_kwargs0 ''verbose''
     \<and> dom fit_kwargs' = dom fit_kwargs0
     \<and> rows w' 0 = [10, 11, 12, 13, 14, 15]
     \<and> ints w' 0 = [1, 1, 0, 0, 0, 0] \<and> ints w' 1 = [0, 1, 2, 3, 4, 5]
     \<and> ints w' 2 = [2, 3] \<and> ints w' 3 = [4, 5]"
proof -
  obtain w' fit_kwargs' r where
      tb: "triple_balance rev_shuffler sample_all world0 0 0 1 fit_kwargs0 query_kwargs0 7 True kwargs0
             = Some (w', fit_kwargs', r)"
      and fk: "fit_kwargs' = fit_kwargs0
               \<or> (\<exists>v. ''epochs'' \<in> dom fit_kwargs0 \<and> fit_kwargs' = fit_kwargs0(''epochs'' \<mapsto> IntV v))"
      and rw: "rows w' = rows world0"
      and iw: "\<forall>a<nxt world0. ints w' a = ints world0 a"
    using triple_balance_frame [of rev_shuffler sample_all world0 0 0 1 fit_kwargs0 query_kwargs0 7
        True kwargs0]
    by blast
  have n: "nxt world0 = 4" by (simp add: world0_def)
  have "ints w' 0 = ints world0 0" "ints w' 1 = ints world0 1" "ints w' 2 = ints world0 2"
       "ints w' 3 = ints world0 3"
    using iw n by simp_all
  then have i: "ints w' 0 = [1, 1, 0, 0, 0, 0]" "ints w' 1 = [0, 1, 2, 3, 4, 5]"
      "ints w' 2 = [2, 3]" "ints w' 3 = [4, 5]"
    by (simp_all add: world0_def)
  have r: "rows w' 0 = [10, 11, 12, 13, 14, 15]"
    using rw by (simp add: world0_def)
  have v: "fit_kwargs' ''verbose'' = fit_kwargs0 ''verbose''"
    using fk by auto
  have d: "dom fit_kwargs' = dom fit_kwargs0"
    using fk by (elim disjE exE conjE) (simp_all add: insert_absorb)
  show ?thesis
    using tb v d i r by (intro exI [of _ w'] exI [of _ fit_kwargs'] exI [of _ r]) simp
qed

subsection \<open>C10: no training index of label 1\<close>

text \<open>
  Claim C10 says that every call on the triple path with no training index of label 1 and
  with the key \<open>epochs\<close> in the fit configuration raises a division-by-zero error. The
  sizing step runs before the division \<^verbatim>\<open>n_one_epoch/n_one\<close>, and it may raise another
  error first: with \<open>rand_max_b = -1\<close> the logarithm \<^verbatim>\<open>log(b)\<close> raises \<^verbatim>\<open>ValueError\<close>. The
  pool \<open>world_no_ones\<close> with these keyword parameters is such an input.
\<close>

theorem triple_balance_negative_b_counterexample:
  "triple_groups rev_shuffler world_no_ones 0 1 query_kwargs0 False
     = Some (world_no_ones_pools, [], [4, 5], [2, 3])
   \<and> fit_kwargs0 ''epochs'' = Some (IntV 5)
   \<and> rand_max_b kwargs_negative_b = - 1
   \<and> triple_balance rev_shuffler sample_all world_no_ones 0 0 1 fit_kwargs0 query_kwargs0 7 False
       kwargs_negative_b
       = Some (world_no_ones_pools, fit_kwargs0, Inl ValueError)"
proof -
  have y: "ints world_no_ones_pools 0 = [0, 0, 0, 0, 0, 0]"
    by (simp add: world_no_ones_pools_def world_no_ones_def world0_def)
  have d: "get_triple_dist 0 2 2 6 kwargs_negative_b = Inl ValueError"
    by (simp add: dist_defs kwargs_negative_b_def)
  have tp: "triple_path rev_shuffler world_no_ones_pools 0 0 fit_kwargs0 7 False kwargs_negative_b
              [] [4, 5] [2, 3]
          = Some (world_no_ones_pools, fit_kwargs0, Inl ValueError)"
    using d by (simp add: triple_path_def y)
  have tb: "triple_balance rev_shuffler sample_all world_no_ones 0 0 1 fit_kwargs0 query_kwargs0 7
              False kwargs_negative_b
            = triple_path rev_shuffler world_no_ones_pools 0 0 fit_kwargs0 7 False kwargs_negative_b
                [] [4, 5] [2, 3]"
    by (rule triple_balance_triple_path [OF triple_groups_no_ones])
  have f: "fit_kwargs0 ''epochs'' = Some (IntV 5)"
    by (simp add: fit_kwargs0_def)
  have b: "rand_max_b kwargs_negative_b = - 1"
    by (simp add: kwargs_negative_b_def)
  show ?thesis
    using triple_groups_no_ones f b tb tp by simp
qed

text \<open>
  Claim C10 as amended. Take a call that reaches the triple path with no training index of
  label 1 and with the key \<open>epochs\<close> in the fit configuration. The call raises: it returns
  no schedule and does not call the fallback, and the fit configuration is unchanged. The
  exception is the one the sizing step raises when it raises one, and it is
  \<^verbatim>\<open>ZeroDivisionError\<close>, from the division \<^verbatim>\<open>n_one_epoch/n_one\<close>, whenever the sizing step
  returns.
\<close>

theorem triple_balance_no_ones_raises:
  assumes "triple_groups sh w y train_idx query_kwargs shuffle
             = Some (w1, [], zero_rand_idx, zero_max_idx)"
    and "''epochs'' \<in> dom fit_kwargs"
  shows "\<exists>g e.
           triple_balance sh full_sample w X y train_idx fit_kwargs query_kwargs pref_epochs
             shuffle kw
             = Some (w1\<lparr>rng := g\<rparr>, fit_kwargs, Inl e)
           \<and> (e = ZeroDivisionError
              \<or> get_triple_dist 0 (int (length zero_rand_idx)) (int (length zero_max_idx))
                  (int (length (ints w1 y))) kw = Inl e)"
proof -
  have ne: "zero_rand_idx \<noteq> []" "zero_max_idx \<noteq> []"
    using triple_groups_frame [OF assms(1)] by simp_all
  show ?thesis
    unfolding triple_balance_triple_path [OF assms(1)]
    by (rule triple_path_no_ones [OF ne assms(2)])
qed

text \<open>
  The theorem at \<open>world_no_ones\<close> with the reversing shuffle: the sizing step returns the
  counts \<open>(0, 0, 0)\<close> and the call raises \<^verbatim>\<open>ZeroDivisionError\<close>.
\<close>

theorem triple_balance_no_ones_raises_witness:
  "triple_groups rev_shuffler world_no_ones 0 1 query_kwargs0 True
     = Some (world_no_ones_shuffled, [], [5, 4], [3, 2])
   \<and> ''epochs'' \<in> dom fit_kwargs0
   \<and> get_triple_dist 0 2 2 6 kwargs0 = Inr (0, 0, 0)
   \<and> triple_balance rev_shuffler sample_all world_no_ones 0 0 1 fit_kwargs0 query_kwargs0 7 True
       kwargs0
       = Some (world_no_ones_shuffled, fit_kwargs0, Inl ZeroDivisionError)"
proof -
  have ep: "''epochs'' \<in> dom fit_kwargs0" by (simp add: fit_kwargs0_def)
  have l: "int (length (ints world_no_ones_shuffled 0)) = 6"
    by (simp add: world_no_ones_shuffled_def world_no_ones_def world0_def)
  obtain g e where
      tb: "triple_balance rev_shuffler sample_all world_no_ones 0 0 1 fit_kwargs0 query_kwargs0 7 True
         kwargs0 = Some (world_no_ones_shuffled\<lparr>rng := g\<rparr>, fit_kwargs0, Inl e)"
      and e: "e = ZeroDivisionError
         \<or> get_triple_dist 0 (int (length [5, 4 :: int])) (int (length [3, 2 :: int]))
             (int (length (ints world_no_ones_shuffled 0))) kwargs0 = Inl e"
    using triple_balance_no_ones_raises [OF triple_groups_no_ones_shuffled ep,
        of sample_all 0 7 kwargs0]
    by auto
  have "e = ZeroDivisionError"
    using e get_triple_dist_no_ones0 by (simp add: l)
  then have "triple_balance rev_shuffler sample_all world_no_ones 0 0 1 fit_kwargs0 query_kwargs0 7
               True kwargs0
             = Some (world_no_ones_shuffled, fit_kwargs0, Inl ZeroDivisionError)"
    using tb by simp
  then show ?thesis
    using triple_groups_no_ones_shuffled ep get_triple_dist_no_ones0 by simp
qed

end
